theory Spec2Isabelle
  imports Complex_Main "HOL-Library.AList"
begin

section \<open>TTLMap (utils/ttl-map.ts)\<close>

text \<open>
  The backing \<open>Map\<close> iterates in insertion order and keeps the position of a key that is
  overwritten, so the store is an association list: \<open>AList.update\<close> overwrites in place
  or appends, \<open>AList.delete\<close> removes. Every operation that reads the clock takes the
  reading \<open>now\<close> (epoch milliseconds, an integer) as an argument. The model covers
  keys that are defined values (task ids are strings), TTLs that are finite integers and a
  capacity that is a natural number; a key \<open>undefined\<close>, a TTL of \<open>Infinity\<close> or \<open>NaN\<close>
  and a fractional capacity are outside it.
\<close>

record 'v TTLEntry =
  val :: 'v
  expiresAt :: int

record ('k, 'v) TTLMap =
  store :: "('k \<times> 'v TTLEntry) list"
  defaultTTL :: int
  maxSize :: nat

definition TTLMap_new :: "int \<Rightarrow> nat \<Rightarrow> ('k, 'v) TTLMap" where
  "TTLMap_new ttl cap = \<lparr>store = [], defaultTTL = ttl, maxSize = cap\<rparr>"

definition TTLMap_get :: "int \<Rightarrow> 'k \<Rightarrow> ('k, 'v) TTLMap \<Rightarrow> 'v option \<times> ('k, 'v) TTLMap" where
  "TTLMap_get now key m =
     (case map_of (store m) key of
        None \<Rightarrow> (None, m)
      | Some entry \<Rightarrow>
          if now > expiresAt entry
          then (None, m\<lparr>store := AList.delete key (store m)\<rparr>)
          else (Some (val entry), m))"

text \<open>
  The scan of \<open>evictOldest\<close>: the accumulator is \<open>(oldestKey, oldestExpiry)\<close>, where
  \<open>None\<close> stands for \<open>undefined\<close> and for the initial bound \<open>Infinity\<close>.
\<close>

fun evictScan :: "('k \<times> 'v TTLEntry) list \<Rightarrow> 'k option \<times> int option \<Rightarrow> 'k option \<times> int option" where
  "evictScan [] acc = acc"
| "evictScan ((key, entry) # rest) (oldestKey, oldestExpiry) =
     (if (case oldestExpiry of None \<Rightarrow> True | Some b \<Rightarrow> expiresAt entry < b)
      then evictScan rest (Some key, Some (expiresAt entry))
      else evictScan rest (oldestKey, oldestExpiry))"

definition evictOldest :: "('k, 'v) TTLMap \<Rightarrow> ('k, 'v) TTLMap" where
  "evictOldest m =
     (case fst (evictScan (store m) (None, None)) of
        None \<Rightarrow> m
      | Some oldestKey \<Rightarrow> m\<lparr>store := AList.delete oldestKey (store m)\<rparr>)"

definition TTLMap_set :: "int \<Rightarrow> 'k \<Rightarrow> 'v \<Rightarrow> int option \<Rightarrow> ('k, 'v) TTLMap \<Rightarrow> ('k, 'v) TTLMap" where
  "TTLMap_set now key v ttl m =
     (let m1 = (if length (store m) \<ge> maxSize m \<and> map_of (store m) key = None
                then evictOldest m else m)
      in m1\<lparr>store := AList.update key
              \<lparr>val = v, expiresAt = now + (case ttl of None \<Rightarrow> defaultTTL m | Some t \<Rightarrow> t)\<rparr>
              (store m1)\<rparr>)"

definition TTLMap_has :: "int \<Rightarrow> 'k \<Rightarrow> ('k, 'v) TTLMap \<Rightarrow> bool \<times> ('k, 'v) TTLMap" where
  "TTLMap_has now key m = (case TTLMap_get now key m of (r, m') \<Rightarrow> (r \<noteq> None, m'))"

definition TTLMap_delete :: "'k \<Rightarrow> ('k, 'v) TTLMap \<Rightarrow> bool \<times> ('k, 'v) TTLMap" where
  "TTLMap_delete key m =
     (map_of (store m) key \<noteq> None, m\<lparr>store := AList.delete key (store m)\<rparr>)"

definition TTLMap_clear :: "('k, 'v) TTLMap \<Rightarrow> ('k, 'v) TTLMap" where
  "TTLMap_clear m = m\<lparr>store := []\<rparr>"

definition TTLMap_size :: "('k, 'v) TTLMap \<Rightarrow> nat" where
  "TTLMap_size m = length (store m)"

definition TTLMap_prune :: "int \<Rightarrow> ('k, 'v) TTLMap \<Rightarrow> nat \<times> ('k, 'v) TTLMap" where
  "TTLMap_prune now m =
     (length (filter (\<lambda>(key, entry). now > expiresAt entry) (store m)),
      m\<lparr>store := filter (\<lambda>(key, entry). \<not> now > expiresAt entry) (store m)\<rparr>)"

text \<open>A sequence of calls on one map; results of the calls are dropped, the map is kept.\<close>

datatype ('k, 'v) TTLMap_op =
    CallGet int 'k
  | CallSet int 'k 'v "int option"
  | CallHas int 'k
  | CallDelete 'k
  | CallClear
  | CallPrune int

fun TTLMap_apply :: "('k, 'v) TTLMap_op \<Rightarrow> ('k, 'v) TTLMap \<Rightarrow> ('k, 'v) TTLMap" where
  "TTLMap_apply (CallGet now key) m = snd (TTLMap_get now key m)"
| "TTLMap_apply (CallSet now key v ttl) m = TTLMap_set now key v ttl m"
| "TTLMap_apply (CallHas now key) m = snd (TTLMap_has now key m)"
| "TTLMap_apply (CallDelete key) m = snd (TTLMap_delete key m)"
| "TTLMap_apply CallClear m = TTLMap_clear m"
| "TTLMap_apply (CallPrune now) m = snd (TTLMap_prune now m)"

fun TTLMap_calls :: "('k, 'v) TTLMap_op list \<Rightarrow> ('k, 'v) TTLMap \<Rightarrow> ('k, 'v) TTLMap" where
  "TTLMap_calls [] m = m"
| "TTLMap_calls (c # cs) m = TTLMap_calls cs (TTLMap_apply c m)"

section \<open>Data model (types/task.ts, runtime-state.ts, pressure.ts, decision.ts, envelope.ts, subroutine.ts)\<close>

text \<open>
  Counters and budgets are natural numbers, timestamps integers (epoch milliseconds),
  pressures reals. An optional field is an \<open>option\<close>. A field called \<open>id\<close> in the source
  is renamed, since \<open>id\<close> is the identity function of HOL.
\<close>

type_synonym TaskID = string

record TaskMetadata =
  intent :: "string option"
  priority :: "real option"
  spawnBudget :: nat
  maxRetryDepth :: nat
  createdAt :: int

record Task =
  task_id :: TaskID
  metadata :: TaskMetadata

record TaskRuntimeState =
  spawnCount :: nat
  retryDepth :: nat
  lastAttemptAt :: int

record PressureSignal =
  memory :: real
  queueDepth :: real
  spawnSaturation :: real
  timestamp :: int

datatype DropReason = spawn_budget_exhausted | retry_depth_exhausted | pressure_exceeded

datatype Decision =
    Dispatch
  | Retry nat
  | Escalate nat
  | Drop DropReason nat

text \<open>
  \<open>isFrozen\<close> is what \<open>Object.isFrozen\<close> answers for the envelope object;
  \<open>createDecisionEnvelope\<close> freezes what it builds.
\<close>

record DecisionEnvelope =
  envelope_id :: string
  allowDrop :: bool
  allowRetry :: bool
  allowCooperate :: bool
  allowHistoryInfluence :: bool
  eligibleCandidates :: "string list"
  isFrozen :: bool

definition createDecisionEnvelope :: "DecisionEnvelope \<Rightarrow> DecisionEnvelope" where
  "createDecisionEnvelope config =
     \<lparr>envelope_id = envelope_id config,
      allowDrop = allowDrop config,
      allowRetry = allowRetry config,
      allowCooperate = allowCooperate config,
      allowHistoryInfluence = allowHistoryInfluence config,
      eligibleCandidates = eligibleCandidates config,
      isFrozen = True\<rparr>"

text \<open>
  A sub-routine is known by the id its factory was called with: \<open>createSimpleFactory\<close>
  builds a sub-routine whose \<open>dispatch task\<close> calls the dispatcher with that id.
\<close>

datatype SubRoutine = SubRoutine string

record SubRoutineGroup =
  primary :: SubRoutine
  cooperatives :: "SubRoutine list"

definition createSimpleFactory :: "string \<Rightarrow> SubRoutine" where
  "createSimpleFactory ident = SubRoutine ident"

section \<open>Pressure observer (components/amigdala.ts)\<close>

record PressureSource =
  getMemoryPressure :: real
  getQueueDepthPressure :: real
  getSpawnSaturation :: real

definition clamp :: "real \<Rightarrow> real" where
  "clamp v = (if v < 0 then 0 else if v > 1 then 1 else v)"

definition noopPressureSource :: PressureSource where
  "noopPressureSource =
     \<lparr>getMemoryPressure = 0, getQueueDepthPressure = 0, getSpawnSaturation = 0\<rparr>"

definition snapshot :: "PressureSource \<Rightarrow> int \<Rightarrow> PressureSignal" where
  "snapshot source now =
     \<lparr>memory = clamp (getMemoryPressure source),
      queueDepth = clamp (getQueueDepthPressure source),
      spawnSaturation = clamp (getSpawnSaturation source),
      timestamp = now\<rparr>"

section \<open>Spawn strategies (strategies/types.ts, intent-based.ts, compose.ts)\<close>

record StrategyContext =
  ctx_task :: Task
  ctx_envelope :: DecisionEnvelope
  ctx_runtimeState :: TaskRuntimeState
  ctx_pressure :: PressureSignal
  ctx_eligibleCandidates :: "string list"
  ctx_factory :: "string \<Rightarrow> SubRoutine"

type_synonym StrategyResult = "SubRoutineGroup option"

record SpawnStrategy =
  strategy_name :: string
  select :: "StrategyContext \<Rightarrow> StrategyResult"

record EligibilityResult =
  eligible :: bool
  reason :: "string option"

definition checkEligibility :: "Task \<Rightarrow> TaskRuntimeState \<Rightarrow> EligibilityResult" where
  "checkEligibility task runtimeState =
     (if spawnCount runtimeState \<ge> spawnBudget (metadata task)
      then \<lparr>eligible = False, reason = Some ''spawn_budget_exhausted''\<rparr>
      else if retryDepth runtimeState \<ge> maxRetryDepth (metadata task)
      then \<lparr>eligible = False, reason = Some ''retry_depth_exhausted''\<rparr>
      else \<lparr>eligible = True, reason = None\<rparr>)"

text \<open>
  \<open>intentMap\<close> is a plain object used as a dictionary of its own string properties,
  hence a finite map from strings to strings. The test \<open>intent in intentMap\<close> of the source
  also answers true for the names that every plain object inherits (\<open>constructor\<close>,
  \<open>toString\<close> and the like); the map has the own properties only, so an intent with such
  a name is outside what this definition covers.
\<close>

record IntentBasedConfig =
  intentMap :: "(string \<rightharpoonup> string) option"
  defaultSubRoutineId :: "string option"

definition createIntentBasedStrategy :: "IntentBasedConfig option \<Rightarrow> SpawnStrategy" where
  "createIntentBasedStrategy config =
     (let imap = (case config of None \<Rightarrow> Map.empty
                  | Some c \<Rightarrow> (case intentMap c of None \<Rightarrow> Map.empty | Some im \<Rightarrow> im));
          defaultId = (case config of None \<Rightarrow> ''default''
                  | Some c \<Rightarrow> (case defaultSubRoutineId c of None \<Rightarrow> ''default'' | Some d \<Rightarrow> d))
      in \<lparr>strategy_name = ''intent-based'',
          select = (\<lambda>context.
            if \<not> eligible (checkEligibility (ctx_task context) (ctx_runtimeState context))
            then None
            else
              let subRoutineId =
                    (case intent (metadata (ctx_task context)) of
                       None \<Rightarrow> defaultId
                     | Some i \<Rightarrow> (case imap i of None \<Rightarrow> defaultId | Some r \<Rightarrow> r))
              in Some \<lparr>primary = ctx_factory context subRoutineId, cooperatives = []\<rparr>)\<rparr>)"

fun firstSelected :: "SpawnStrategy list \<Rightarrow> StrategyContext \<Rightarrow> StrategyResult" where
  "firstSelected [] context = None"
| "firstSelected (strategy # rest) context =
     (case select strategy context of
        Some result \<Rightarrow> Some result
      | None \<Rightarrow> firstSelected rest context)"

fun joinNames :: "string list \<Rightarrow> string" where
  "joinNames [] = []"
| "joinNames [n] = n"
| "joinNames (n # ns) = n @ '','' @ joinNames ns"

definition composeStrategies :: "SpawnStrategy list \<Rightarrow> SpawnStrategy" where
  "composeStrategies strategies =
     \<lparr>strategy_name = ''composed('' @ joinNames (map strategy_name strategies) @ '')'',
      select = firstSelected strategies\<rparr>"

section \<open>CircuitDistributor (components/circuit-distributor.ts)\<close>

type_synonym CircuitDistributor =
  "Task \<Rightarrow> DecisionEnvelope \<Rightarrow> TaskRuntimeState \<Rightarrow> PressureSignal \<Rightarrow> SubRoutineGroup option"

record CircuitDistributorConfig =
  strategy :: SpawnStrategy
  factory :: "string \<Rightarrow> SubRoutine"

definition createCircuitDistributor :: "CircuitDistributorConfig \<Rightarrow> CircuitDistributor" where
  "createCircuitDistributor config task envelope runtimeState pressure =
     (if length (eligibleCandidates envelope) = 0 then None
      else select (strategy config)
             \<lparr>ctx_task = task,
              ctx_envelope = envelope,
              ctx_runtimeState = runtimeState,
              ctx_pressure = pressure,
              ctx_eligibleCandidates = eligibleCandidates envelope,
              ctx_factory = factory config\<rparr>)"

section \<open>MainRoutine (components/main-routine.ts)\<close>

text \<open>
  One call of \<open>admit\<close>, \<open>signalRetry\<close> or \<open>getRuntimeState\<close> is synchronous; it takes the
  clock reading \<open>now\<close> of that call, and \<open>admit\<close> also takes \<open>pressure\<close>, the value that
  \<open>amigdala.snapshot()\<close> returns during the call (\<open>emitDecision\<close> takes a second
  snapshot for the event; the model gives it the same reading). The envelope resolver and
  the distributor are the functions their interfaces declare. The mutable parts of the closure are
  the \<open>MainRoutineState\<close>: the TTL map of runtime states, the log of
  \<open>group.primary.dispatch(task)\<close> calls and the log of events handed to \<open>onDecision\<close>.
  A dispatch is an entry of the log: the dispatcher is taken to return without calling the
  routine, so that the runtime state \<open>admit\<close> read before the dispatch is the one it
  increments after it, and the states are kept in the map by value. Dispatchers that call
  \<open>admit\<close> or \<open>signalRetry\<close> before they return are the subject of the section on runtime
  states held by reference, further down.
\<close>

record DecisionEvent =
  ev_taskId :: TaskID
  ev_decision :: Decision
  ev_envelopeId :: string
  ev_envelopeNarrowed :: bool
  ev_eligibleCandidatesCount :: nat
  ev_memory :: real
  ev_queueDepth :: real
  ev_spawnSaturation :: real
  ev_timestamp :: int

record MainRoutineConfig =
  cfg_distributor :: CircuitDistributor
  cfg_registryCount :: nat
  cfg_envelopeResolver :: "string \<Rightarrow> DecisionEnvelope option"
  cfg_defaultEnvelope :: "DecisionEnvelope option"
  cfg_stateTTL :: "int option"
  cfg_maxTrackedTasks :: "nat option"
  cfg_onDecision :: bool

record MainRoutine =
  distributor :: CircuitDistributor
  registryCount :: nat
  envelopeResolver :: "string \<Rightarrow> DecisionEnvelope option"
  defaultEnvelope :: DecisionEnvelope
  onDecision :: bool

record MainRoutineState =
  runtimeStates :: "(TaskID, TaskRuntimeState) TTLMap"
  dispatched :: "(Task \<times> SubRoutine) list"
  emitted :: "DecisionEvent list"

datatype Error = Error string

definition createMainRoutine :: "MainRoutineConfig \<Rightarrow> Error + MainRoutine \<times> MainRoutineState" where
  "createMainRoutine config =
     (case cfg_defaultEnvelope config of
        None \<Rightarrow> Inl (Error ''defaultEnvelope is required (RFC-7)'')
      | Some env \<Rightarrow>
          if \<not> isFrozen env
          then Inl (Error ''defaultEnvelope must be immutable (Object.freeze)'')
          else Inr
            (\<lparr>distributor = cfg_distributor config,
              registryCount = cfg_registryCount config,
              envelopeResolver = cfg_envelopeResolver config,
              defaultEnvelope = env,
              onDecision = cfg_onDecision config\<rparr>,
             \<lparr>runtimeStates =
                TTLMap_new (case cfg_stateTTL config of None \<Rightarrow> 5 * 60 * 1000 | Some t \<Rightarrow> t)
                           (case cfg_maxTrackedTasks config of None \<Rightarrow> 10000 | Some n \<Rightarrow> n),
              dispatched = [],
              emitted = []\<rparr>))"

definition getOrCreateRuntimeState ::
  "int \<Rightarrow> TaskID \<Rightarrow> (TaskID, TaskRuntimeState) TTLMap
     \<Rightarrow> TaskRuntimeState \<times> (TaskID, TaskRuntimeState) TTLMap" where
  "getOrCreateRuntimeState now taskId rs =
     (case TTLMap_get now taskId rs of
        (Some existing, rs') \<Rightarrow> (existing, rs')
      | (None, rs') \<Rightarrow>
          (let initial = \<lparr>spawnCount = 0, retryDepth = 0, lastAttemptAt = now\<rparr>
           in (initial, TTLMap_set now taskId initial None rs')))"

definition emitDecision ::
  "MainRoutine \<Rightarrow> int \<Rightarrow> PressureSignal \<Rightarrow> TaskID \<Rightarrow> Decision \<Rightarrow> DecisionEnvelope \<Rightarrow> bool
     \<Rightarrow> MainRoutineState \<Rightarrow> MainRoutineState" where
  "emitDecision R now pressure taskId decision envelope envelopeNarrowed st =
     (if \<not> onDecision R then st
      else st\<lparr>emitted := emitted st @
             [\<lparr>ev_taskId = taskId,
               ev_decision = decision,
               ev_envelopeId = envelope_id envelope,
               ev_envelopeNarrowed = envelopeNarrowed,
               ev_eligibleCandidatesCount = length (eligibleCandidates envelope),
               ev_memory = memory pressure,
               ev_queueDepth = queueDepth pressure,
               ev_spawnSaturation = spawnSaturation pressure,
               ev_timestamp = now\<rparr>]\<rparr>)"

definition resolveEnvelope :: "MainRoutine \<Rightarrow> Task \<Rightarrow> DecisionEnvelope" where
  "resolveEnvelope R task =
     (case envelopeResolver R (case intent (metadata task) of None \<Rightarrow> [] | Some i \<Rightarrow> i) of
        None \<Rightarrow> defaultEnvelope R
      | Some e \<Rightarrow> e)"

definition avgPressure :: "PressureSignal \<Rightarrow> real" where
  "avgPressure pressure = (memory pressure + queueDepth pressure + spawnSaturation pressure) / 3"

definition admit ::
  "MainRoutine \<Rightarrow> int \<Rightarrow> PressureSignal \<Rightarrow> Task \<Rightarrow> MainRoutineState
     \<Rightarrow> Decision \<times> MainRoutineState" where
  "admit R now pressure task st =
     (let envelope = resolveEnvelope R task;
          envelopeNarrowed = length (eligibleCandidates envelope) < registryCount R;
          (runtimeState, rs) = getOrCreateRuntimeState now (task_id task) (runtimeStates st);
          st1 = st\<lparr>runtimeStates := rs\<rparr>
      in if spawnCount runtimeState \<ge> spawnBudget (metadata task) then
           (let decision = Drop spawn_budget_exhausted (retryDepth runtimeState)
            in (decision, emitDecision R now pressure (task_id task) decision envelope envelopeNarrowed st1))
         else if retryDepth runtimeState \<ge> maxRetryDepth (metadata task) then
           (let decision = Drop retry_depth_exhausted (retryDepth runtimeState)
            in (decision, emitDecision R now pressure (task_id task) decision envelope envelopeNarrowed st1))
         else if allowDrop envelope \<and> avgPressure pressure > 0.9 then
           (let decision = Drop pressure_exceeded (retryDepth runtimeState)
            in (decision, emitDecision R now pressure (task_id task) decision envelope envelopeNarrowed st1))
         else
           (case distributor R task envelope runtimeState pressure of
              None \<Rightarrow>
                (let decision = Drop spawn_budget_exhausted (retryDepth runtimeState)
                 in (decision, emitDecision R now pressure (task_id task) decision envelope envelopeNarrowed st1))
            | Some grp \<Rightarrow>
                (let st2 = st1\<lparr>dispatched := dispatched st1 @ [(task, primary grp)]\<rparr>;
                     runtimeState' = runtimeState\<lparr>spawnCount := spawnCount runtimeState + 1,
                                                  lastAttemptAt := now\<rparr>;
                     st3 = st2\<lparr>runtimeStates :=
                                 TTLMap_set now (task_id task) runtimeState' None (runtimeStates st2)\<rparr>
                 in (Dispatch, emitDecision R now pressure (task_id task) Dispatch envelope envelopeNarrowed st3))))"

definition signalRetry :: "int \<Rightarrow> TaskID \<Rightarrow> MainRoutineState \<Rightarrow> MainRoutineState" where
  "signalRetry now taskId st =
     (case TTLMap_get now taskId (runtimeStates st) of
        (Some state, rs) \<Rightarrow>
          st\<lparr>runtimeStates :=
               TTLMap_set now taskId (state\<lparr>retryDepth := retryDepth state + 1\<rparr>) None rs\<rparr>
      | (None, rs) \<Rightarrow> st\<lparr>runtimeStates := rs\<rparr>)"

definition getRuntimeState ::
  "int \<Rightarrow> TaskID \<Rightarrow> MainRoutineState \<Rightarrow> TaskRuntimeState option \<times> MainRoutineState" where
  "getRuntimeState now taskId st =
     (case TTLMap_get now taskId (runtimeStates st) of
        (r, rs) \<Rightarrow> (r, st\<lparr>runtimeStates := rs\<rparr>))"

section \<open>Auxiliary notions used in the statements\<close>

definition keysOf :: "('k, 'v) TTLMap \<Rightarrow> 'k set" where
  "keysOf m = fst ` set (store m)"

text \<open>Keys are unique, the size is within the capacity, and the capacity is positive.\<close>

definition TTLMap_inv :: "('k, 'v) TTLMap \<Rightarrow> bool" where
  "TTLMap_inv m \<longleftrightarrow> distinct (map fst (store m)) \<and> length (store m) \<le> maxSize m \<and> 1 \<le> maxSize m"

text \<open>The raw entry of a task in the TTL map, whether expired or not.\<close>

definition storedEntry :: "TaskID \<Rightarrow> MainRoutineState \<Rightarrow> TaskRuntimeState TTLEntry option" where
  "storedEntry taskId st = map_of (store (runtimeStates st)) taskId"

text \<open>
  The chain of checks of \<open>admit\<close> as a function of the runtime state that
  \<open>getOrCreateRuntimeState\<close> returned; \<open>admit_decision\<close> below proves that \<open>admit\<close>
  returns exactly this.
\<close>

definition decide :: "MainRoutine \<Rightarrow> PressureSignal \<Rightarrow> Task \<Rightarrow> TaskRuntimeState \<Rightarrow> Decision" where
  "decide R pressure task s =
     (if spawnCount s \<ge> spawnBudget (metadata task) then Drop spawn_budget_exhausted (retryDepth s)
      else if retryDepth s \<ge> maxRetryDepth (metadata task) then Drop retry_depth_exhausted (retryDepth s)
      else if allowDrop (resolveEnvelope R task) \<and> avgPressure pressure > 0.9
        then Drop pressure_exceeded (retryDepth s)
      else (case distributor R task (resolveEnvelope R task) s pressure of
              None \<Rightarrow> Drop spawn_budget_exhausted (retryDepth s)
            | Some grp \<Rightarrow> Dispatch))"

section \<open>Fixtures, after the repository's tests\<close>

text \<open>
  The task, envelope, intent-based strategy and routine that \<open>createTestSetup\<close> of the
  envelope tests builds, with an envelope resolver that knows no intent.
\<close>

definition testTask :: "string \<Rightarrow> string option \<Rightarrow> Task" where
  "testTask ident i =
     \<lparr>task_id = ident,
      metadata = \<lparr>intent = i, priority = None, spawnBudget = 5, maxRetryDepth = 3, createdAt = 0\<rparr>\<rparr>"

definition testEnvelope :: "string list \<Rightarrow> bool \<Rightarrow> DecisionEnvelope" where
  "testEnvelope candidates mayDrop =
     createDecisionEnvelope
       \<lparr>envelope_id = ''test.default.v1'', allowDrop = mayDrop, allowRetry = True,
        allowCooperate = True, allowHistoryInfluence = True,
        eligibleCandidates = candidates, isFrozen = False\<rparr>"

definition testStrategy :: SpawnStrategy where
  "testStrategy =
     createIntentBasedStrategy
       (Some \<lparr>intentMap = Some [''fast'' \<mapsto> ''fast'', ''slow'' \<mapsto> ''slow''],
              defaultSubRoutineId = Some ''default''\<rparr>)"

definition testConfig :: "SpawnStrategy \<Rightarrow> DecisionEnvelope option \<Rightarrow> nat option \<Rightarrow> MainRoutineConfig" where
  "testConfig strat env cap =
     \<lparr>cfg_distributor = createCircuitDistributor \<lparr>strategy = strat, factory = createSimpleFactory\<rparr>,
      cfg_registryCount = 3,
      cfg_envelopeResolver = Map.empty,
      cfg_defaultEnvelope = env,
      cfg_stateTTL = None,
      cfg_maxTrackedTasks = cap,
      cfg_onDecision = False\<rparr>"

definition testRoutine :: "SpawnStrategy \<Rightarrow> DecisionEnvelope \<Rightarrow> MainRoutine" where
  "testRoutine strat env =
     \<lparr>distributor = createCircuitDistributor \<lparr>strategy = strat, factory = createSimpleFactory\<rparr>,
      registryCount = 3,
      envelopeResolver = Map.empty,
      defaultEnvelope = env,
      onDecision = False\<rparr>"

definition testState :: "nat \<Rightarrow> MainRoutineState" where
  "testState cap = \<lparr>runtimeStates = TTLMap_new (5 * 60 * 1000) cap, dispatched = [], emitted = []\<rparr>"

definition flatPressure :: "real \<Rightarrow> PressureSignal" where
  "flatPressure v = snapshot \<lparr>getMemoryPressure = v, getQueueDepthPressure = v, getSpawnSaturation = v\<rparr> 0"

definition defaultRoutine :: MainRoutine where
  "defaultRoutine = testRoutine testStrategy (testEnvelope [''default''] True)"

definition firstAdmitted :: "nat \<Rightarrow> MainRoutineState" where
  "firstAdmitted cap =
     snd (admit defaultRoutine 0 (flatPressure 0) (testTask ''t1'' None) (testState cap))"

definition budgetTask :: "string \<Rightarrow> nat \<Rightarrow> Task" where
  "budgetTask ident b =
     \<lparr>task_id = ident,
      metadata = \<lparr>intent = None, priority = None, spawnBudget = b, maxRetryDepth = 3, createdAt = 0\<rparr>\<rparr>"

text \<open>Admissions of several tasks in a row, each with its clock reading and pressure.\<close>

fun admitAll :: "MainRoutine \<Rightarrow> (int \<times> PressureSignal \<times> Task) list \<Rightarrow> MainRoutineState \<Rightarrow> MainRoutineState" where
  "admitAll R [] st = st"
| "admitAll R ((now, pressure, task) # calls) st = admitAll R calls (snd (admit R now pressure task st))"

text \<open>
  \<open>spaced ttl x ts\<close> says that the first time of \<open>ts\<close> is not after the expiry \<open>x\<close>, and
  each later time is at most \<open>ttl\<close> after the one before.
\<close>

fun spaced :: "int \<Rightarrow> int \<Rightarrow> int list \<Rightarrow> bool" where
  "spaced ttl expiry [] = True"
| "spaced ttl expiry (t # ts) = (t \<le> expiry \<and> spaced ttl (t + ttl) ts)"

section \<open>EnvelopeResolver (components/envelope-resolver.ts) and untyped resolution\<close>

text \<open>
  \<open>createEnvelopeResolver\<close> copies the mapping into a frozen plain object and resolves
  with \<open>frozen[intent] ?? null\<close>. A plain object inherits the members of
  \<open>Object.prototype\<close>, so the lookup of an inherited name that is not an own key yields
  that member, which is neither null nor an envelope. \<open>admitUntyped\<close> is \<open>admit\<close> over such
  a resolver: reading \<open>envelope.eligibleCandidates.length\<close> on an inherited member throws
  a \<open>TypeError\<close> before any state is touched; on an envelope or on null it is \<open>admit\<close>.
\<close>

datatype Resolved = ResolvedEnvelope DecisionEnvelope | InheritedMember string

definition objectPrototypeMembers :: "string list" where
  "objectPrototypeMembers =
     [''constructor'', ''__defineGetter__'', ''__defineSetter__'', ''hasOwnProperty'',
      ''__lookupGetter__'', ''__lookupSetter__'', ''isPrototypeOf'', ''propertyIsEnumerable'',
      ''toString'', ''valueOf'', ''__proto__'', ''toLocaleString'']"

definition createEnvelopeResolver :: "(string \<rightharpoonup> DecisionEnvelope) \<Rightarrow> string \<Rightarrow> Resolved option" where
  "createEnvelopeResolver m name =
     (case m name of
        Some e \<Rightarrow> Some (ResolvedEnvelope e)
      | None \<Rightarrow> if name \<in> set objectPrototypeMembers then Some (InheritedMember name) else None)"

definition typedResolver :: "(string \<Rightarrow> Resolved option) \<Rightarrow> string \<Rightarrow> DecisionEnvelope option" where
  "typedResolver resolve name =
     (case resolve name of Some (ResolvedEnvelope e) \<Rightarrow> Some e | _ \<Rightarrow> None)"

definition admitUntyped ::
  "(string \<Rightarrow> Resolved option) \<Rightarrow> MainRoutine \<Rightarrow> int \<Rightarrow> PressureSignal \<Rightarrow> Task \<Rightarrow> MainRoutineState
     \<Rightarrow> Error + Decision \<times> MainRoutineState" where
  "admitUntyped resolve R now pressure task st =
     (case resolve (case intent (metadata task) of None \<Rightarrow> [] | Some i \<Rightarrow> i) of
        Some (InheritedMember member) \<Rightarrow> Inl (Error ''TypeError'')
      | _ \<Rightarrow> Inr (admit (R\<lparr>envelopeResolver := typedResolver resolve\<rparr>) now pressure task st))"

section \<open>Strategies over a destination list (strategies/random.ts, performance-penalty.ts, compose.ts)\<close>

text \<open>
  Both constructors throw on an empty list of destination ids. \<open>randomSource\<close> is the
  number the injected source returns at the call, in \<open>[0, 1)\<close> as \<open>Math.random\<close>'s is;
  outside that range the code reads past the list, and the model selects nothing there.
  The penalty tracker is the function from a destination id to the effective penalty it
  reports at the call, a finite number; \<open>penaltyThreshold = None\<close> is the default
  \<open>Infinity\<close>, and \<open>None\<close> in the scan stands for \<open>undefined\<close> and for the initial
  bound \<open>Infinity\<close>.
\<close>

record RandomConfig =
  random_subRoutineIds :: "string list"
  randomSource :: real

definition createRandomStrategy :: "RandomConfig \<Rightarrow> Error + SpawnStrategy" where
  "createRandomStrategy config =
     (if length (random_subRoutineIds config) = 0
      then Inl (Error ''RandomStrategy requires at least one subRoutineId'')
      else Inr
        \<lparr>strategy_name = ''random'',
         select = (\<lambda>context.
           if \<not> eligible (checkEligibility (ctx_task context) (ctx_runtimeState context))
           then None
           else
             let index = \<lfloor>randomSource config * real (length (random_subRoutineIds config))\<rfloor>
             in if 0 \<le> index \<and> index < int (length (random_subRoutineIds config))
                then Some \<lparr>primary = ctx_factory context (random_subRoutineIds config ! nat index),
                           cooperatives = []\<rparr>
                else None)\<rparr>)"

record PerformancePenaltyConfig =
  penalty_subRoutineIds :: "string list"
  penaltyThreshold :: "real option"

fun lowestPenaltyScan :: "(string \<Rightarrow> real) \<Rightarrow> string list \<Rightarrow> string option \<times> real option
    \<Rightarrow> string option \<times> real option" where
  "lowestPenaltyScan tracker [] acc = acc"
| "lowestPenaltyScan tracker (ident # rest) (bestId, lowestPenalty) =
     (if (case lowestPenalty of None \<Rightarrow> True | Some b \<Rightarrow> tracker ident < b)
      then lowestPenaltyScan tracker rest (Some ident, Some (tracker ident))
      else lowestPenaltyScan tracker rest (bestId, lowestPenalty))"

definition createPerformancePenaltyStrategy ::
  "PerformancePenaltyConfig \<Rightarrow> (string \<Rightarrow> real) \<Rightarrow> Error + SpawnStrategy" where
  "createPerformancePenaltyStrategy config tracker =
     (if length (penalty_subRoutineIds config) = 0
      then Inl (Error ''PerformancePenaltyStrategy requires at least one subRoutineId'')
      else Inr
        \<lparr>strategy_name = ''performance-penalty'',
         select = (\<lambda>context.
           if \<not> eligible (checkEligibility (ctx_task context) (ctx_runtimeState context))
           then None
           else
             (case lowestPenaltyScan tracker (penalty_subRoutineIds config) (None, None) of
                (Some bestId, Some lowestPenalty) \<Rightarrow>
                  if (case penaltyThreshold config of None \<Rightarrow> False | Some t \<Rightarrow> lowestPenalty > t)
                  then None
                  else Some \<lparr>primary = ctx_factory context bestId, cooperatives = []\<rparr>
              | _ \<Rightarrow> None))\<rparr>)"

definition createStandardStrategyStack ::
  "SpawnStrategy \<Rightarrow> SpawnStrategy \<Rightarrow> SpawnStrategy \<Rightarrow> SpawnStrategy \<Rightarrow> SpawnStrategy" where
  "createStandardStrategyStack intentS priorityS penaltyS randomS =
     composeStrategies [intentS, priorityS, penaltyS, randomS]"

section \<open>Sequences of calls on one routine\<close>

text \<open>
  The calls a client makes on one routine, for any tasks, in the order they are made, each
  with its clock reading: an \<open>admit\<close> with the pressure snapshot of that call, or a
  \<open>signalRetry\<close>. \<open>run\<close> makes them one after the other.
\<close>

datatype Call = Admit PressureSignal Task | SignalRetry TaskID

fun step :: "MainRoutine \<Rightarrow> int \<times> Call \<Rightarrow> MainRoutineState \<Rightarrow> MainRoutineState" where
  "step R (now, Admit pressure task) st = snd (admit R now pressure task st)"
| "step R (now, SignalRetry taskId) st = signalRetry now taskId st"

fun run :: "MainRoutine \<Rightarrow> (int \<times> Call) list \<Rightarrow> MainRoutineState \<Rightarrow> MainRoutineState" where
  "run R [] st = st"
| "run R (c # calls) st = run R calls (step R c st)"

text \<open>
  The calls of a run that concern the task id \<open>a\<close>: its admits, its retry signals, either.
\<close>

fun admitOf :: "TaskID \<Rightarrow> int \<times> Call \<Rightarrow> bool" where
  "admitOf a (now, Admit pressure task) = (task_id task = a)"
| "admitOf a (now, SignalRetry taskId) = False"

fun retryOf :: "TaskID \<Rightarrow> int \<times> Call \<Rightarrow> bool" where
  "retryOf a (now, Admit pressure task) = False"
| "retryOf a (now, SignalRetry taskId) = (taskId = a)"

definition callOf :: "TaskID \<Rightarrow> int \<times> Call \<Rightarrow> bool" where
  "callOf a c = (admitOf a c \<or> retryOf a c)"

text \<open>
  \<open>admitsDispatch\<close>: every \<open>admit\<close> of the run for the task id \<open>a\<close> returns \<open>Dispatch\<close>.
  \<open>staysStored\<close>: after every call of the run the store holds an entry for \<open>a\<close>.
\<close>

fun admitsDispatch :: "MainRoutine \<Rightarrow> TaskID \<Rightarrow> (int \<times> Call) list \<Rightarrow> MainRoutineState \<Rightarrow> bool" where
  "admitsDispatch R a [] st = True"
| "admitsDispatch R a ((now, Admit pressure task) # calls) st =
     ((task_id task = a \<longrightarrow> fst (admit R now pressure task st) = Dispatch) \<and>
      admitsDispatch R a calls (snd (admit R now pressure task st)))"
| "admitsDispatch R a ((now, SignalRetry taskId) # calls) st =
     admitsDispatch R a calls (signalRetry now taskId st)"

fun staysStored :: "MainRoutine \<Rightarrow> TaskID \<Rightarrow> (int \<times> Call) list \<Rightarrow> MainRoutineState \<Rightarrow> bool" where
  "staysStored R a [] st = True"
| "staysStored R a (c # calls) st =
     (storedEntry a (step R c st) \<noteq> None \<and> staysStored R a calls (step R c st))"



section \<open>MainRoutine with the runtime states held by reference\<close>










text \<open>
  \<open>byValue\<close> reads a state with references as a \<open>MainRoutineState\<close>: every reference in
  the map is replaced by the object behind it. \<open>wellFormed\<close>: no two entries of the map
  hold the same reference, and every reference in the map is below \<open>nextRef\<close>.
  \<open>returnsWithoutCallback\<close>: the dispatcher leaves the objects, the map and the event log
  as they are, as one that makes no call on the routine does.
\<close>

definition derefEntries :: "(nat \<Rightarrow> 'v) \<Rightarrow> ('k \<times> nat TTLEntry) list \<Rightarrow> ('k \<times> 'v TTLEntry) list" where
  "derefEntries f entries = map (\<lambda>(k, e). (k, \<lparr>val = f (val e), expiresAt = expiresAt e\<rparr>)) entries"

definition refsOf :: "('k \<times> nat TTLEntry) list \<Rightarrow> nat list" where
  "refsOf entries = map (\<lambda>(k, e). val e) entries"

definition deref :: "(nat \<Rightarrow> 'v) \<Rightarrow> ('k, nat) TTLMap \<Rightarrow> ('k, 'v) TTLMap" where
  "deref f m =
     \<lparr>store = derefEntries f (store m),
      defaultTTL = defaultTTL m,
      maxSize = maxSize m\<rparr>"






section \<open>The TTL map: capacity and eviction\<close>

lemma evictScan_spec:
  "evictScan xs (ko, bo) = (ko', bo') \<Longrightarrow>
   (case bo' of
      None \<Rightarrow> xs = [] \<and> bo = None \<and> ko' = ko
    | Some b' \<Rightarrow>
        (\<forall>(k, e) \<in> set xs. b' \<le> expiresAt e) \<and>
        (case bo of None \<Rightarrow> True | Some b \<Rightarrow> b' \<le> b) \<and>
        ((ko' = ko \<and> bo' = bo) \<or> (\<exists>k e. (k, e) \<in> set xs \<and> ko' = Some k \<and> expiresAt e = b')))"
proof (induction xs arbitrary: ko bo)
  case Nil
  then show ?case by (auto split: option.splits)
next
  case (Cons x xs)
  obtain key entry where x: "x = (key, entry)" by (cases x)
  show ?case
  proof (cases "case bo of None \<Rightarrow> True | Some b \<Rightarrow> expiresAt entry < b")
    case True
    with Cons.prems x have "evictScan xs (Some key, Some (expiresAt entry)) = (ko', bo')" by simp
    from Cons.IH [OF this] True x show ?thesis
      by (auto split: option.splits)
  next
    case False
    with Cons.prems x have "evictScan xs (ko, bo) = (ko', bo')" by simp
    from Cons.IH [OF this] False x show ?thesis
      by (fastforce split: option.splits)
  qed
qed

lemma evictScan_oldest:
  assumes "xs \<noteq> []"
  shows "\<exists>k e. fst (evictScan xs (None, None)) = Some k \<and> (k, e) \<in> set xs \<and>
               (\<forall>(k', e') \<in> set xs. expiresAt e \<le> expiresAt e')"
proof -
  obtain ko' bo' where r: "evictScan xs (None, None) = (ko', bo')" by (cases "evictScan xs (None, None)")
  from evictScan_spec [OF r] assms show ?thesis
    by (cases bo') (auto simp: r)
qed


lemma length_delete_present:
  "k \<in> fst ` set xs \<Longrightarrow> length (AList.delete k xs) < length xs"
proof (induction xs)
  case Nil
  then show ?case by simp
next
  case (Cons p ps)
  show ?case
  proof (cases "fst p = k")
    case True
    then show ?thesis using AList.length_delete_le [of k ps] by simp
  next
    case False
    with Cons.prems have "k \<in> fst ` set ps" by auto
    from Cons.IH [OF this] False show ?thesis by simp
  qed
qed

lemma length_update:
  "length (AList.update k v xs) = (if k \<in> fst ` set xs then length xs else Suc (length xs))"
  by (induction xs) auto

lemma evictOldest_store:
  assumes "store m \<noteq> []"
  shows "\<exists>k e. (k, e) \<in> set (store m) \<and> (\<forall>(k', e') \<in> set (store m). expiresAt e \<le> expiresAt e') \<and>
               evictOldest m = m\<lparr>store := AList.delete k (store m)\<rparr>"
proof -
  from evictScan_oldest [OF assms] obtain k e where
    "fst (evictScan (store m) (None, None)) = Some k" "(k, e) \<in> set (store m)"
    "\<forall>(k', e') \<in> set (store m). expiresAt e \<le> expiresAt e'" by blast
  then show ?thesis by (auto simp: evictOldest_def)
qed

lemma TTLMap_set_new_at_capacity:
  assumes "store m \<noteq> []" "maxSize m \<le> length (store m)" "map_of (store m) key = None"
  shows "\<exists>k e. (k, e) \<in> set (store m) \<and> (\<forall>(k', e') \<in> set (store m). expiresAt e \<le> expiresAt e') \<and>
      store (TTLMap_set now key v ttl m) =
        AList.update key \<lparr>val = v, expiresAt = now + (case ttl of None \<Rightarrow> defaultTTL m | Some t \<Rightarrow> t)\<rparr>
          (AList.delete k (store m))"
proof -
  from evictOldest_store [OF assms(1)] obtain k e where
    ke: "(k, e) \<in> set (store m)" "\<forall>(k', e') \<in> set (store m). expiresAt e \<le> expiresAt e'"
    and ev: "evictOldest m = m\<lparr>store := AList.delete k (store m)\<rparr>" by blast
  from assms(2,3) ev have "store (TTLMap_set now key v ttl m) =
        AList.update key \<lparr>val = v, expiresAt = now + (case ttl of None \<Rightarrow> defaultTTL m | Some t \<Rightarrow> t)\<rparr>
          (AList.delete k (store m))"
    by (simp add: TTLMap_set_def Let_def)
  with ke show ?thesis by blast
qed

lemma TTLMap_set_existing:
  assumes "map_of (store m) key = Some e0"
  shows "TTLMap_set now key v ttl m =
     m\<lparr>store := AList.update key
         \<lparr>val = v, expiresAt = now + (case ttl of None \<Rightarrow> defaultTTL m | Some t \<Rightarrow> t)\<rparr> (store m)\<rparr>"
  using assms by (simp add: TTLMap_set_def Let_def)

lemma TTLMap_set_below_capacity:
  assumes "length (store m) < maxSize m"
  shows "TTLMap_set now key v ttl m =
     m\<lparr>store := AList.update key
         \<lparr>val = v, expiresAt = now + (case ttl of None \<Rightarrow> defaultTTL m | Some t \<Rightarrow> t)\<rparr> (store m)\<rparr>"
  using assms by (simp add: TTLMap_set_def Let_def)

lemma map_of_None_iff: "map_of xs k = None \<longleftrightarrow> k \<notin> fst ` set xs"
  by (simp add: map_of_eq_None_iff)

lemma evictOldest_fields [simp]:
  "maxSize (evictOldest m) = maxSize m" "defaultTTL (evictOldest m) = defaultTTL m"
  by (auto simp: evictOldest_def split: option.splits)

lemma TTLMap_set_fields [simp]:
  "maxSize (TTLMap_set now key v ttl m) = maxSize m"
  "defaultTTL (TTLMap_set now key v ttl m) = defaultTTL m"
  by (auto simp: TTLMap_set_def Let_def)


lemma TTLMap_set_inv:
  assumes "TTLMap_inv m"
  shows "TTLMap_inv (TTLMap_set now key v ttl m)"
proof (cases "maxSize m \<le> length (store m) \<and> map_of (store m) key = None")
  case True
  with assms have ne: "store m \<noteq> []" by (auto simp: TTLMap_inv_def)
  from True have cap: "maxSize m \<le> length (store m)" and new: "map_of (store m) key = None"
    by simp_all
  from TTLMap_set_new_at_capacity [OF ne cap new, of now v ttl] obtain k e where
    ke: "(k, e) \<in> set (store m)"
    and st: "store (TTLMap_set now key v ttl m) =
        AList.update key \<lparr>val = v, expiresAt = now + (case ttl of None \<Rightarrow> defaultTTL m | Some t \<Rightarrow> t)\<rparr>
          (AList.delete k (store m))" by blast
  from ke have "k \<in> fst ` set (store m)" by force
  then have "length (AList.delete k (store m)) < length (store m)" by (rule length_delete_present)
  with assms show ?thesis
    by (simp add: TTLMap_inv_def st length_update AList.distinct_update AList.distinct_delete)
next
  case False
  have eq: "TTLMap_set now key v ttl m =
     m\<lparr>store := AList.update key
         \<lparr>val = v, expiresAt = now + (case ttl of None \<Rightarrow> defaultTTL m | Some t \<Rightarrow> t)\<rparr> (store m)\<rparr>"
    using False by (auto simp: TTLMap_set_def Let_def)
  from False assms show ?thesis
    by (auto simp: eq TTLMap_inv_def length_update AList.distinct_update map_of_None_iff)
qed

lemma TTLMap_get_inv: "TTLMap_inv m \<Longrightarrow> TTLMap_inv (snd (TTLMap_get now key m))"
  using AList.length_delete_le [of key "store m"]
  by (auto simp: TTLMap_get_def TTLMap_inv_def AList.distinct_delete split: option.splits)

lemma TTLMap_apply_inv: "TTLMap_inv m \<Longrightarrow> TTLMap_inv (TTLMap_apply c m)"
proof (cases c)
  case (CallGet now key)
  assume "TTLMap_inv m"
  then show ?thesis using CallGet by (simp add: TTLMap_get_inv)
next
  case (CallSet now key v ttl)
  assume "TTLMap_inv m"
  then show ?thesis using CallSet by (simp add: TTLMap_set_inv)
next
  case (CallHas now key)
  assume "TTLMap_inv m"
  then have "TTLMap_inv (snd (TTLMap_get now key m))" by (rule TTLMap_get_inv)
  then show ?thesis using CallHas by (cases "TTLMap_get now key m") (simp add: TTLMap_has_def)
next
  case (CallDelete key)
  assume "TTLMap_inv m"
  then show ?thesis using CallDelete AList.length_delete_le [of key "store m"]
    by (auto simp: TTLMap_delete_def TTLMap_inv_def AList.distinct_delete)
next
  case CallClear
  assume "TTLMap_inv m"
  then show ?thesis using CallClear by (simp add: TTLMap_clear_def TTLMap_inv_def)
next
  case (CallPrune now)
  assume "TTLMap_inv m"
  then show ?thesis using CallPrune
    by (auto simp: TTLMap_prune_def TTLMap_inv_def distinct_map_filter
        intro: le_trans [OF length_filter_le])
qed

lemma TTLMap_calls_inv: "TTLMap_inv m \<Longrightarrow> TTLMap_inv (TTLMap_calls cs m)"
  by (induction cs arbitrary: m) (auto simp: TTLMap_apply_inv)

lemma TTLMap_new_inv: "1 \<le> cap \<Longrightarrow> TTLMap_inv (TTLMap_new ttl cap)"
  by (simp add: TTLMap_inv_def TTLMap_new_def)

lemma TTLMap_apply_maxSize: "maxSize (TTLMap_apply c m) = maxSize m"
  by (cases c) (auto simp: TTLMap_has_def TTLMap_delete_def TTLMap_clear_def TTLMap_prune_def
      split: prod.splits, auto simp: TTLMap_get_def split: option.splits if_splits)

lemma TTLMap_apply_defaultTTL: "defaultTTL (TTLMap_apply c m) = defaultTTL m"
  by (cases c) (auto simp: TTLMap_has_def TTLMap_delete_def TTLMap_clear_def TTLMap_prune_def
      split: prod.splits, auto simp: TTLMap_get_def split: option.splits if_splits)

lemma TTLMap_calls_defaultTTL: "defaultTTL (TTLMap_calls cs m) = defaultTTL m"
  by (induction cs arbitrary: m) (auto simp: TTLMap_apply_defaultTTL)

lemma TTLMap_calls_maxSize: "maxSize (TTLMap_calls cs m) = maxSize m"
  by (induction cs arbitrary: m) (auto simp: TTLMap_apply_maxSize)

text \<open>
  Claim C7. A map constructed with capacity 0 holds an entry after its first \<open>set\<close>:
  \<open>evictOldest\<close> finds nothing to delete in the empty store, and \<open>set\<close> inserts all the
  same, so the size, 1, exceeds the configured capacity, 0.
\<close>

theorem TTLMap_capacity_zero_exceeded:
  "TTLMap_size (TTLMap_calls [CallSet 0 ''a'' (1::nat) None] (TTLMap_new 1000 0)) = 1 \<and>
   maxSize (TTLMap_calls [CallSet 0 ''a'' (1::nat) None] (TTLMap_new 1000 0)) = 0"
  by (simp add: TTLMap_new_def TTLMap_set_def TTLMap_size_def evictOldest_def Let_def)

section \<open>Admission: the decision and its effect on the runtime states\<close>

lemma map_of_TTLMap_set_same:
  "map_of (store (TTLMap_set now key v ttl m)) key =
     Some \<lparr>val = v, expiresAt = now + (case ttl of None \<Rightarrow> defaultTTL m | Some t \<Rightarrow> t)\<rparr>"
  by (simp add: TTLMap_set_def Let_def AList.update_conv')

lemma TTLMap_get_live:
  "map_of (store m) key = Some e \<Longrightarrow> now \<le> expiresAt e \<Longrightarrow> TTLMap_get now key m = (Some (val e), m)"
  by (simp add: TTLMap_get_def)

lemma TTLMap_get_expired:
  "map_of (store m) key = Some e \<Longrightarrow> expiresAt e < now \<Longrightarrow>
   TTLMap_get now key m = (None, m\<lparr>store := AList.delete key (store m)\<rparr>)"
  by (simp add: TTLMap_get_def)

lemma TTLMap_get_absent:
  "map_of (store m) key = None \<Longrightarrow> TTLMap_get now key m = (None, m)"
  by (simp add: TTLMap_get_def)


lemma emitDecision_runtimeStates [simp]:
  "runtimeStates (emitDecision R now pressure taskId decision envelope narrowed st) = runtimeStates st"
  by (simp add: emitDecision_def)

lemma admit_decision:
  "fst (admit R now pressure task st) =
     decide R pressure task (fst (getOrCreateRuntimeState now (task_id task) (runtimeStates st)))"
  by (simp add: admit_def decide_def Let_def split: prod.splits option.splits)

lemma admit_runtimeStates:
  "runtimeStates (snd (admit R now pressure task st)) =
     (case getOrCreateRuntimeState now (task_id task) (runtimeStates st) of
        (s, rs) \<Rightarrow>
          if decide R pressure task s = Dispatch
          then TTLMap_set now (task_id task) (s\<lparr>spawnCount := spawnCount s + 1, lastAttemptAt := now\<rparr>) None rs
          else rs)"
  by (simp add: admit_def decide_def Let_def split: prod.splits option.splits)

lemma decide_cases:
  "decide R pressure task s = Dispatch \<or> (\<exists>r. decide R pressure task s = Drop r (retryDepth s))"
  by (simp add: decide_def split: option.splits)

text \<open>
  Over a resolver that returns envelopes or null only, every decision is \<open>Dispatch\<close> or a
  \<open>Drop\<close>, never \<open>Retry\<close> or \<open>Escalate\<close>.
\<close>

lemma admit_dispatch_or_drop:
  "(fst (admit R now pressure task st) = Dispatch \<or>
    (\<exists>r d. fst (admit R now pressure task st) = Drop r d)) \<and>
   (\<forall>n. fst (admit R now pressure task st) \<noteq> Retry n) \<and>
   (\<forall>n. fst (admit R now pressure task st) \<noteq> Escalate n)"
proof -
  let ?s = "fst (getOrCreateRuntimeState now (task_id task) (runtimeStates st))"
  from decide_cases [of R pressure task ?s] show ?thesis
    unfolding admit_decision by auto
qed

lemma admitUntyped_envelopes:
  assumes "\<forall>i member. resolve i \<noteq> Some (InheritedMember member)"
  shows "\<exists>d st'. admitUntyped resolve R now pressure task st = Inr (d, st') \<and>
           (d = Dispatch \<or> (\<exists>r n. d = Drop r n))"
proof -
  let ?R = "R\<lparr>envelopeResolver := typedResolver resolve\<rparr>"
  have "admitUntyped resolve R now pressure task st = Inr (admit ?R now pressure task st)"
    using assms by (auto simp: admitUntyped_def split: option.splits Resolved.splits)
  moreover have "fst (admit ?R now pressure task st) = Dispatch \<or>
      (\<exists>r n. fst (admit ?R now pressure task st) = Drop r n)"
    using admit_dispatch_or_drop [of ?R now pressure task st] by blast
  ultimately show ?thesis by (cases "admit ?R now pressure task st") auto
qed

text \<open>
  Claim C5. With the resolver that \<open>createEnvelopeResolver\<close> builds from an empty mapping,
  the intent \<open>constructor\<close> resolves to the inherited member of that name, and \<open>admit\<close>
  of a task with that intent throws instead of returning a decision.
\<close>

theorem admit_throws_on_inherited_intent:
  "createEnvelopeResolver Map.empty ''constructor'' = Some (InheritedMember ''constructor'') \<and>
   admitUntyped (createEnvelopeResolver Map.empty) defaultRoutine 0 (flatPressure 0)
      (testTask ''t1'' (Some ''constructor'')) (testState 10000) = Inl (Error ''TypeError'')"
  by (simp add: admitUntyped_def createEnvelopeResolver_def objectPrototypeMembers_def testTask_def)

section \<open>The pressure drop gate\<close>

lemma createMainRoutine_test:
  "createMainRoutine (testConfig strat (Some (testEnvelope cands mayDrop)) None) =
     Inr (testRoutine strat (testEnvelope cands mayDrop), testState 10000)"
  by (simp add: createMainRoutine_def testConfig_def testRoutine_def testState_def testEnvelope_def
      createDecisionEnvelope_def)

lemma avgPressure_flat: "0 \<le> v \<Longrightarrow> v \<le> 1 \<Longrightarrow> avgPressure (flatPressure v) = v"
  by (simp add: avgPressure_def flatPressure_def snapshot_def clamp_def)

lemma resolve_test [simp]: "resolveEnvelope (testRoutine strat env) task = env"
  by (simp add: resolveEnvelope_def testRoutine_def split: option.splits)

lemma getOrCreate_new:
  "getOrCreateRuntimeState now tid (TTLMap_new ttl cap) =
    (\<lparr>spawnCount = 0, retryDepth = 0, lastAttemptAt = now\<rparr>,
     \<lparr>store = [(tid, \<lparr>val = \<lparr>spawnCount = 0, retryDepth = 0, lastAttemptAt = now\<rparr>, expiresAt = now + ttl\<rparr>)],
      defaultTTL = ttl, maxSize = cap\<rparr>)"
  by (simp add: getOrCreateRuntimeState_def TTLMap_get_def TTLMap_new_def TTLMap_set_def Let_def
      evictOldest_def)

lemma distributor_test:
  "distributor (testRoutine testStrategy env) (testTask ident i) env
      \<lparr>spawnCount = 0, retryDepth = 0, lastAttemptAt = now\<rparr> p =
   (if eligibleCandidates env = [] then None
    else Some \<lparr>primary = SubRoutine
            (case i of None \<Rightarrow> ''default''
             | Some x \<Rightarrow> (case [''fast'' \<mapsto> ''fast'', ''slow'' \<mapsto> ''slow''] x of None \<Rightarrow> ''default'' | Some r \<Rightarrow> r)),
          cooperatives = []\<rparr>)"
  by (simp add: testRoutine_def testStrategy_def createCircuitDistributor_def
      createIntentBasedStrategy_def checkEligibility_def testTask_def createSimpleFactory_def Let_def)

text \<open>
  Claim C3, amended. With \<open>allowDrop = false\<close> the decision is never
  \<open>drop(pressure_exceeded)\<close>, whatever the pressure, and it is \<open>dispatch\<close> whenever the
  budgets allow and the distributor selects a group. With \<open>allowDrop = true\<close> and budgets
  that allow, an average pressure strictly above 0.9 gives \<open>drop(pressure_exceeded)\<close>; an
  average of 0.9 or less never does.
\<close>

theorem pressure_drop_gate:
  "(\<not> allowDrop (resolveEnvelope R task) \<longrightarrow>
      (\<forall>n. fst (admit R now pressure task st) \<noteq> Drop pressure_exceeded n)) \<and>
   (avgPressure pressure \<le> 0.9 \<longrightarrow>
      (\<forall>n. fst (admit R now pressure task st) \<noteq> Drop pressure_exceeded n)) \<and>
   (getOrCreateRuntimeState now (task_id task) (runtimeStates st) = (s, rs) \<and>
    spawnCount s < spawnBudget (metadata task) \<and> retryDepth s < maxRetryDepth (metadata task) \<longrightarrow>
      (\<not> allowDrop (resolveEnvelope R task) \<and>
       distributor R task (resolveEnvelope R task) s pressure \<noteq> None \<longrightarrow>
         fst (admit R now pressure task st) = Dispatch) \<and>
      (allowDrop (resolveEnvelope R task) \<and> avgPressure pressure > 0.9 \<longrightarrow>
         fst (admit R now pressure task st) = Drop pressure_exceeded (retryDepth s)))"
  by (auto simp: admit_decision decide_def split: option.splits)

theorem pressure_drop_gate_witness:
  "fst (admit (testRoutine testStrategy (testEnvelope [''default''] False)) 0 (flatPressure 0.95)
          (testTask ''t1'' None) (testState 10000)) = Dispatch \<and>
   fst (admit (testRoutine testStrategy (testEnvelope [''default''] True)) 0 (flatPressure 0.95)
          (testTask ''t1'' None) (testState 10000)) = Drop pressure_exceeded 0 \<and>
   fst (admit (testRoutine testStrategy (testEnvelope [''default''] True)) 0 (flatPressure 0.5)
          (testTask ''t1'' None) (testState 10000)) \<noteq> Drop pressure_exceeded 0"
proof -
  let ?T = "testTask ''t1'' None"
  let ?s = "\<lparr>spawnCount = 0, retryDepth = 0, lastAttemptAt = 0\<rparr>"
  let ?rs = "\<lparr>store = [(''t1'', \<lparr>val = ?s, expiresAt = 0 + 5 * 60 * 1000\<rparr>)],
      defaultTTL = 5 * 60 * 1000, maxSize = 10000\<rparr>"
  have g: "getOrCreateRuntimeState 0 (task_id ?T) (runtimeStates (testState 10000)) = (?s, ?rs)"
    by (simp add: testState_def getOrCreate_new testTask_def)
  have b: "spawnCount ?s < spawnBudget (metadata ?T)" "retryDepth ?s < maxRetryDepth (metadata ?T)"
    by (simp_all add: testTask_def)
  have avg: "avgPressure (flatPressure 0.95) > 0.9" "avgPressure (flatPressure 0.5) \<le> 0.9"
    by (simp_all add: avgPressure_flat)
  have sel: "distributor (testRoutine testStrategy (testEnvelope [''default''] False)) ?T
      (testEnvelope [''default''] False) ?s (flatPressure 0.95) \<noteq> None"
    by (simp add: testTask_def [symmetric] distributor_test)
       (simp add: testEnvelope_def createDecisionEnvelope_def)
  have d: "\<not> allowDrop (testEnvelope [''default''] False)" "allowDrop (testEnvelope [''default''] True)"
    by (simp_all add: testEnvelope_def createDecisionEnvelope_def)
  from pressure_drop_gate [of "testRoutine testStrategy (testEnvelope [''default''] False)" ?T 0
      "flatPressure 0.95" "testState 10000" ?s ?rs] g b avg sel d
  have 1: "fst (admit (testRoutine testStrategy (testEnvelope [''default''] False)) 0 (flatPressure 0.95)
          ?T (testState 10000)) = Dispatch" by simp
  from pressure_drop_gate [of "testRoutine testStrategy (testEnvelope [''default''] True)" ?T 0
      "flatPressure 0.95" "testState 10000" ?s ?rs] g b avg d
  have 2: "fst (admit (testRoutine testStrategy (testEnvelope [''default''] True)) 0 (flatPressure 0.95)
          ?T (testState 10000)) = Drop pressure_exceeded 0" by simp
  from pressure_drop_gate [of "testRoutine testStrategy (testEnvelope [''default''] True)" ?T 0
      "flatPressure 0.5" "testState 10000" ?s ?rs] avg
  have 3: "fst (admit (testRoutine testStrategy (testEnvelope [''default''] True)) 0 (flatPressure 0.5)
          ?T (testState 10000)) \<noteq> Drop pressure_exceeded 0" by simp
  from 1 2 3 show ?thesis by blast
qed

text \<open>
  At an average pressure of exactly 0.9 with \<open>allowDrop = true\<close> the task is dispatched;
  with \<open>allowDrop = false\<close>, budgets that allow and an envelope without candidates the
  task is dropped.
\<close>

theorem pressure_drop_gate_counterexample:
  "allowDrop (testEnvelope [''default''] True) \<and>
   avgPressure (flatPressure 0.9) \<ge> 0.9 \<and>
   fst (admit (testRoutine testStrategy (testEnvelope [''default''] True)) 0 (flatPressure 0.9)
          (testTask ''t1'' None) (testState 10000)) = Dispatch \<and>
   \<not> allowDrop (testEnvelope [] False) \<and>
   avgPressure (flatPressure 0.95) \<ge> 0.9 \<and>
   fst (admit (testRoutine testStrategy (testEnvelope [] False)) 0 (flatPressure 0.95)
          (testTask ''t1'' None) (testState 10000)) = Drop spawn_budget_exhausted 0"
  by (simp add: admit_decision testState_def getOrCreate_new decide_def distributor_test
      avgPressure_flat) (simp add: testTask_def testEnvelope_def createDecisionEnvelope_def)

section \<open>Selection and the envelope's candidates\<close>

text \<open>An envelope without candidates yields no selection, whatever the strategy.\<close>

lemma select_empty_candidates:
  "eligibleCandidates envelope = [] \<Longrightarrow>
   createCircuitDistributor config task envelope runtimeState pressure = None"
  by (simp add: createCircuitDistributor_def)

text \<open>
  Claim C4. The distributor hands the strategy the raw factory, and the intent-based
  strategy never reads \<open>eligibleCandidates\<close>: with the envelope \<open>[fast]\<close> and a task of
  intent \<open>slow\<close>, the group's primary is created for \<open>slow\<close>, which is not a candidate
  of the envelope, and \<open>admit\<close> dispatches the task to it.
\<close>

theorem select_outside_eligibleCandidates:
  "createCircuitDistributor \<lparr>strategy = testStrategy, factory = createSimpleFactory\<rparr>
      (testTask ''t1'' (Some ''slow'')) (testEnvelope [''fast''] True)
      \<lparr>spawnCount = 0, retryDepth = 0, lastAttemptAt = 0\<rparr> (flatPressure 0) =
     Some \<lparr>primary = SubRoutine ''slow'', cooperatives = []\<rparr> \<and>
   ''slow'' \<notin> set (eligibleCandidates (testEnvelope [''fast''] True)) \<and>
   admit (testRoutine testStrategy (testEnvelope [''fast''] True)) 0 (flatPressure 0)
      (testTask ''t1'' (Some ''slow'')) (testState 10000) =
     (Dispatch,
      \<lparr>runtimeStates =
         \<lparr>store = [(''t1'', \<lparr>val = \<lparr>spawnCount = 1, retryDepth = 0, lastAttemptAt = 0\<rparr>,
                              expiresAt = 300000\<rparr>)],
          defaultTTL = 300000, maxSize = 10000\<rparr>,
       dispatched = [(testTask ''t1'' (Some ''slow''), SubRoutine ''slow'')],
       emitted = []\<rparr>)"
proof -
  let ?env = "testEnvelope [''fast''] True"
  let ?T = "testTask ''t1'' (Some ''slow'')"
  have ne: "eligibleCandidates ?env \<noteq> []" and out: "''slow'' \<notin> set (eligibleCandidates ?env)"
    and nodrop: "\<not> (allowDrop ?env \<and> avgPressure (flatPressure 0) > 0.9)"
    by (simp_all add: testEnvelope_def createDecisionEnvelope_def avgPressure_flat)
  have sel: "distributor (testRoutine testStrategy ?env) ?T ?env
        \<lparr>spawnCount = 0, retryDepth = 0, lastAttemptAt = 0\<rparr> (flatPressure 0) =
      Some \<lparr>primary = SubRoutine ''slow'', cooperatives = []\<rparr>"
    using ne by (simp add: distributor_test)
  then have 1: "createCircuitDistributor \<lparr>strategy = testStrategy, factory = createSimpleFactory\<rparr>
      ?T ?env \<lparr>spawnCount = 0, retryDepth = 0, lastAttemptAt = 0\<rparr> (flatPressure 0) =
     Some \<lparr>primary = SubRoutine ''slow'', cooperatives = []\<rparr>"
    by (simp add: testRoutine_def)
  have tid: "task_id ?T = ''t1''" and bud: "spawnBudget (metadata ?T) = 5" "maxRetryDepth (metadata ?T) = 3"
    by (simp_all add: testTask_def)
  have onD: "\<not> onDecision (testRoutine testStrategy ?env)" by (simp add: testRoutine_def)
  have 3: "admit (testRoutine testStrategy ?env) 0 (flatPressure 0) ?T (testState 10000) =
     (Dispatch,
      \<lparr>runtimeStates =
         \<lparr>store = [(''t1'', \<lparr>val = \<lparr>spawnCount = 1, retryDepth = 0, lastAttemptAt = 0\<rparr>,
                              expiresAt = 300000\<rparr>)],
          defaultTTL = 300000, maxSize = 10000\<rparr>,
       dispatched = [(?T, SubRoutine ''slow'')],
       emitted = []\<rparr>)"
    using nodrop
    by (simp add: admit_def Let_def tid bud testState_def getOrCreate_new sel emitDecision_def onD
        TTLMap_set_def)
  from 1 out 3 show ?thesis by blast
qed

section \<open>Construction\<close>

lemma admit_dispatched_drop:
  "fst (admit R now p task st) \<noteq> Dispatch \<Longrightarrow> dispatched (snd (admit R now p task st)) = dispatched st"
  by (auto simp: admit_def Let_def emitDecision_def split: prod.splits option.splits if_splits)

lemma emptyComposition_never_selects:
  "createCircuitDistributor \<lparr>strategy = composeStrategies [], factory = f\<rparr> task env s p = None"
  by (simp add: createCircuitDistributor_def composeStrategies_def)

text \<open>
  Claim C8, amended. \<open>createMainRoutine\<close> fails with a configuration error when the default
  envelope is missing and when it is not frozen, and otherwise returns a routine with empty
  runtime state. \<open>createRandomStrategy\<close> and \<open>createPerformancePenaltyStrategy\<close> fail
  with an error on an empty destination list and succeed otherwise. \<open>composeStrategies\<close>
  has no check: over the empty list it builds a strategy that selects nothing, and a
  routine whose distributor uses it never dispatches: every \<open>admit\<close> returns a drop and
  calls no destination, with reason \<open>spawn_budget_exhausted\<close> whenever the budgets allow
  and no pressure drop applies.
\<close>

theorem construction_errors:
  "(cfg_defaultEnvelope config = None \<longrightarrow>
      createMainRoutine config = Inl (Error ''defaultEnvelope is required (RFC-7)'')) \<and>
   (cfg_defaultEnvelope config = Some env \<and> \<not> isFrozen env \<longrightarrow>
      createMainRoutine config = Inl (Error ''defaultEnvelope must be immutable (Object.freeze)'')) \<and>
   (cfg_defaultEnvelope config = Some env \<and> isFrozen env \<longrightarrow>
      (\<exists>R st. createMainRoutine config = Inr (R, st) \<and> defaultEnvelope R = env \<and>
              store (runtimeStates st) = [] \<and> dispatched st = [] \<and> emitted st = [])) \<and>
   (random_subRoutineIds rconfig = [] \<longrightarrow>
      createRandomStrategy rconfig = Inl (Error ''RandomStrategy requires at least one subRoutineId'')) \<and>
   (random_subRoutineIds rconfig \<noteq> [] \<longrightarrow> (\<exists>s. createRandomStrategy rconfig = Inr s)) \<and>
   (penalty_subRoutineIds pconfig = [] \<longrightarrow>
      createPerformancePenaltyStrategy pconfig tracker =
        Inl (Error ''PerformancePenaltyStrategy requires at least one subRoutineId'')) \<and>
   (penalty_subRoutineIds pconfig \<noteq> [] \<longrightarrow>
      (\<exists>s. createPerformancePenaltyStrategy pconfig tracker = Inr s)) \<and>
   select (composeStrategies []) context = None \<and>
   (distributor R = createCircuitDistributor \<lparr>strategy = composeStrategies [], factory = f\<rparr> \<longrightarrow>
      fst (admit R now p task st) \<noteq> Dispatch \<and>
      (\<exists>r n. fst (admit R now p task st) = Drop r n) \<and>
      dispatched (snd (admit R now p task st)) = dispatched st \<and>
      (getOrCreateRuntimeState now (task_id task) (runtimeStates st) = (s, rs) \<and>
       spawnCount s < spawnBudget (metadata task) \<and> retryDepth s < maxRetryDepth (metadata task) \<and>
       \<not> (allowDrop (resolveEnvelope R task) \<and> avgPressure p > 0.9) \<longrightarrow>
         fst (admit R now p task st) = Drop spawn_budget_exhausted (retryDepth s)))"
proof -
  have main: "(cfg_defaultEnvelope config = None \<longrightarrow>
      createMainRoutine config = Inl (Error ''defaultEnvelope is required (RFC-7)'')) \<and>
   (cfg_defaultEnvelope config = Some env \<and> \<not> isFrozen env \<longrightarrow>
      createMainRoutine config = Inl (Error ''defaultEnvelope must be immutable (Object.freeze)'')) \<and>
   (cfg_defaultEnvelope config = Some env \<and> isFrozen env \<longrightarrow>
      (\<exists>R st. createMainRoutine config = Inr (R, st) \<and> defaultEnvelope R = env \<and>
              store (runtimeStates st) = [] \<and> dispatched st = [] \<and> emitted st = []))"
    by (simp add: createMainRoutine_def TTLMap_new_def)
  have rnd: "(random_subRoutineIds rconfig = [] \<longrightarrow>
      createRandomStrategy rconfig = Inl (Error ''RandomStrategy requires at least one subRoutineId'')) \<and>
   (random_subRoutineIds rconfig \<noteq> [] \<longrightarrow> (\<exists>s. createRandomStrategy rconfig = Inr s))"
    by (simp add: createRandomStrategy_def)
  have pen: "(penalty_subRoutineIds pconfig = [] \<longrightarrow>
      createPerformancePenaltyStrategy pconfig tracker =
        Inl (Error ''PerformancePenaltyStrategy requires at least one subRoutineId'')) \<and>
   (penalty_subRoutineIds pconfig \<noteq> [] \<longrightarrow>
      (\<exists>s. createPerformancePenaltyStrategy pconfig tracker = Inr s))"
    by (simp add: createPerformancePenaltyStrategy_def)
  have none: "select (composeStrategies []) context = None"
    by (simp add: composeStrategies_def)
  have adm: "fst (admit R now p task st) \<noteq> Dispatch \<and>
      (\<exists>r n. fst (admit R now p task st) = Drop r n) \<and>
      dispatched (snd (admit R now p task st)) = dispatched st \<and>
      (getOrCreateRuntimeState now (task_id task) (runtimeStates st) = (s, rs) \<and>
       spawnCount s < spawnBudget (metadata task) \<and> retryDepth s < maxRetryDepth (metadata task) \<and>
       \<not> (allowDrop (resolveEnvelope R task) \<and> avgPressure p > 0.9) \<longrightarrow>
         fst (admit R now p task st) = Drop spawn_budget_exhausted (retryDepth s))"
    if d: "distributor R = createCircuitDistributor \<lparr>strategy = composeStrategies [], factory = f\<rparr>"
  proof -
    have sel: "distributor R task' env' s' p' = None" for task' env' s' p'
      by (simp add: d emptyComposition_never_selects)
    have nd: "fst (admit R now p task st) \<noteq> Dispatch"
      by (simp add: admit_decision decide_def sel)
    have dr: "\<exists>r n. fst (admit R now p task st) = Drop r n"
      by (simp add: admit_decision decide_def sel)
    have lg: "dispatched (snd (admit R now p task st)) = dispatched st"
      using nd by (rule admit_dispatched_drop)
    have bd: "fst (admit R now p task st) = Drop spawn_budget_exhausted (retryDepth s)"
      if "getOrCreateRuntimeState now (task_id task) (runtimeStates st) = (s, rs)"
        "spawnCount s < spawnBudget (metadata task)" "retryDepth s < maxRetryDepth (metadata task)"
        "\<not> (allowDrop (resolveEnvelope R task) \<and> avgPressure p > 0.9)"
      using that by (auto simp: admit_decision decide_def sel)
    from nd dr lg bd show ?thesis by blast
  qed
  from main rnd pen none adm show ?thesis by blast
qed

theorem construction_errors_witness:
  "createMainRoutine (testConfig testStrategy None None) =
     Inl (Error ''defaultEnvelope is required (RFC-7)'') \<and>
   createMainRoutine (testConfig testStrategy
       (Some \<lparr>envelope_id = ''mutable'', allowDrop = True, allowRetry = True, allowCooperate = True,
              allowHistoryInfluence = True, eligibleCandidates = [''a''], isFrozen = False\<rparr>) None) =
     Inl (Error ''defaultEnvelope must be immutable (Object.freeze)'') \<and>
   (\<exists>R st. createMainRoutine (testConfig testStrategy (Some (testEnvelope [''a''] True)) None) =
      Inr (R, st)) \<and>
   createRandomStrategy \<lparr>random_subRoutineIds = [], randomSource = 0\<rparr> =
     Inl (Error ''RandomStrategy requires at least one subRoutineId'') \<and>
   (\<exists>s. createRandomStrategy \<lparr>random_subRoutineIds = [''a''], randomSource = 0\<rparr> = Inr s) \<and>
   createPerformancePenaltyStrategy \<lparr>penalty_subRoutineIds = [], penaltyThreshold = None\<rparr> (\<lambda>i. 0) =
     Inl (Error ''PerformancePenaltyStrategy requires at least one subRoutineId'') \<and>
   (\<exists>s. createPerformancePenaltyStrategy \<lparr>penalty_subRoutineIds = [''a''], penaltyThreshold = None\<rparr>
          (\<lambda>i. 0) = Inr s) \<and>
   fst (admit (testRoutine (composeStrategies []) (testEnvelope [''default''] True)) 0 (flatPressure 0)
         (testTask ''t1'' None) (testState 10000)) = Drop spawn_budget_exhausted 0 \<and>
   dispatched (snd (admit (testRoutine (composeStrategies []) (testEnvelope [''default''] True)) 0
         (flatPressure 0) (testTask ''t1'' None) (testState 10000))) = []"
proof -
  let ?m = "\<lparr>envelope_id = ''mutable'', allowDrop = True, allowRetry = True, allowCooperate = True,
              allowHistoryInfluence = True, eligibleCandidates = [''a''], isFrozen = False\<rparr>"
  let ?r0 = "\<lparr>random_subRoutineIds = [], randomSource = 0\<rparr>"
  let ?r1 = "\<lparr>random_subRoutineIds = [''a''], randomSource = 0\<rparr>"
  let ?p0 = "\<lparr>penalty_subRoutineIds = [], penaltyThreshold = None\<rparr>"
  let ?p1 = "\<lparr>penalty_subRoutineIds = [''a''], penaltyThreshold = None\<rparr>"
  let ?R = "testRoutine (composeStrategies []) (testEnvelope [''default''] True)"
  let ?T = "testTask ''t1'' None"
  let ?s0 = "\<lparr>spawnCount = 0, retryDepth = 0, lastAttemptAt = 0\<rparr>"
  let ?rs0 = "\<lparr>store = [(''t1'', \<lparr>val = ?s0, expiresAt = 0 + 300000\<rparr>)],
      defaultTTL = 300000, maxSize = 10000\<rparr>"
  have a: "cfg_defaultEnvelope (testConfig testStrategy None None) = None"
    and b: "cfg_defaultEnvelope (testConfig testStrategy (Some ?m) None) = Some ?m \<and> \<not> isFrozen ?m"
    and c: "cfg_defaultEnvelope (testConfig testStrategy (Some (testEnvelope [''a''] True)) None) =
        Some (testEnvelope [''a''] True) \<and> isFrozen (testEnvelope [''a''] True)"
    by (simp_all add: testConfig_def testEnvelope_def createDecisionEnvelope_def)
  have r0: "random_subRoutineIds ?r0 = []" and r1: "random_subRoutineIds ?r1 \<noteq> []"
    and p0: "penalty_subRoutineIds ?p0 = []" and p1: "penalty_subRoutineIds ?p1 \<noteq> []"
    by simp_all
  have d: "distributor ?R =
      createCircuitDistributor \<lparr>strategy = composeStrategies [], factory = createSimpleFactory\<rparr>"
    by (simp add: testRoutine_def)
  have g: "getOrCreateRuntimeState 0 (task_id ?T) (runtimeStates (testState 10000)) = (?s0, ?rs0)"
    by (simp add: getOrCreate_new testState_def testTask_def)
  have ok: "spawnCount ?s0 < spawnBudget (metadata ?T) \<and> retryDepth ?s0 < maxRetryDepth (metadata ?T) \<and>
       \<not> (allowDrop (resolveEnvelope ?R ?T) \<and> avgPressure (flatPressure 0) > 0.9)"
    by (simp add: avgPressure_flat testTask_def)
  note T = construction_errors [where config = "testConfig testStrategy None None"]
  from T a have 1: "createMainRoutine (testConfig testStrategy None None) =
     Inl (Error ''defaultEnvelope is required (RFC-7)'')" by blast
  from construction_errors [where config = "testConfig testStrategy (Some ?m) None" and env = ?m] b
  have 2: "createMainRoutine (testConfig testStrategy (Some ?m) None) =
     Inl (Error ''defaultEnvelope must be immutable (Object.freeze)'')" by blast
  from construction_errors [where config = "testConfig testStrategy (Some (testEnvelope [''a''] True)) None"
      and env = "testEnvelope [''a''] True"] c
  have 3: "\<exists>R st. createMainRoutine (testConfig testStrategy (Some (testEnvelope [''a''] True)) None) =
      Inr (R, st)" by blast
  from construction_errors [where rconfig = ?r0] r0
  have 4: "createRandomStrategy ?r0 = Inl (Error ''RandomStrategy requires at least one subRoutineId'')"
    by blast
  from construction_errors [where rconfig = ?r1] r1
  have 5: "\<exists>s. createRandomStrategy ?r1 = Inr s" by blast
  from construction_errors [where pconfig = ?p0 and tracker = "\<lambda>i. 0"] p0
  have 6: "createPerformancePenaltyStrategy ?p0 (\<lambda>i. 0) =
     Inl (Error ''PerformancePenaltyStrategy requires at least one subRoutineId'')" by blast
  from construction_errors [where pconfig = ?p1 and tracker = "\<lambda>i. 0"] p1
  have 7: "\<exists>s. createPerformancePenaltyStrategy ?p1 (\<lambda>i. 0) = Inr s" by blast
  from construction_errors [where R = ?R and f = createSimpleFactory and now = 0
      and p = "flatPressure 0" and task = ?T and st = "testState 10000" and s = ?s0 and rs = ?rs0] d g ok
  have 8: "fst (admit ?R 0 (flatPressure 0) ?T (testState 10000)) = Drop spawn_budget_exhausted (retryDepth ?s0)"
    and 9: "dispatched (snd (admit ?R 0 (flatPressure 0) ?T (testState 10000))) = dispatched (testState 10000)"
    by blast+
  from 8 have h8: "fst (admit ?R 0 (flatPressure 0) ?T (testState 10000)) = Drop spawn_budget_exhausted 0"
    by simp
  from 9 have h9: "dispatched (snd (admit ?R 0 (flatPressure 0) ?T (testState 10000))) = []"
    by (simp add: testState_def)
  from 1 2 3 4 5 6 7 h8 h9 show ?thesis by blast
qed

text \<open>
  A routine over \<open>composeStrategies []\<close> is constructed without error; the empty list shows
  only when a task is admitted, as a drop.
\<close>

theorem empty_strategy_list_counterexample:
  "createMainRoutine (testConfig (composeStrategies []) (Some (testEnvelope [''default''] True)) None) =
     Inr (testRoutine (composeStrategies []) (testEnvelope [''default''] True), testState 10000) \<and>
   fst (admit (testRoutine (composeStrategies []) (testEnvelope [''default''] True)) 0 (flatPressure 0)
          (testTask ''t1'' None) (testState 10000)) = Drop spawn_budget_exhausted 0"
proof -
  have sel: "distributor (testRoutine (composeStrategies []) (testEnvelope [''default''] True))
      task env s p = None" for task env s p
    by (simp add: testRoutine_def createCircuitDistributor_def composeStrategies_def)
  have "fst (admit (testRoutine (composeStrategies []) (testEnvelope [''default''] True)) 0 (flatPressure 0)
          (testTask ''t1'' None) (testState 10000)) = Drop spawn_budget_exhausted 0"
    by (simp add: admit_decision testState_def getOrCreate_new decide_def sel avgPressure_flat)
       (simp add: testTask_def)
  then show ?thesis by (simp add: createMainRoutine_test)
qed

section \<open>Retry signals and the stored entry\<close>

lemma getOrCreate_live:
  "map_of (store rs) tid = Some e \<Longrightarrow> now \<le> expiresAt e \<Longrightarrow>
   getOrCreateRuntimeState now tid rs = (val e, rs)"
  by (simp add: getOrCreateRuntimeState_def TTLMap_get_def)

lemma signalRetry_live:
  assumes "storedEntry tid st = Some e" "now \<le> expiresAt e"
  shows "signalRetry now tid st =
     st\<lparr>runtimeStates := (runtimeStates st)\<lparr>store :=
          AList.update tid \<lparr>val = (val e)\<lparr>retryDepth := retryDepth (val e) + 1\<rparr>,
                             expiresAt = now + defaultTTL (runtimeStates st)\<rparr>
            (store (runtimeStates st))\<rparr>\<rparr>"
  using assms
  by (simp add: signalRetry_def storedEntry_def TTLMap_get_def TTLMap_set_def Let_def)

lemma signalRetry_absent:
  assumes "storedEntry tid st = None"
  shows "signalRetry now tid st = st"
  using assms by (simp add: signalRetry_def storedEntry_def TTLMap_get_def)

lemma signalRetry_expired:
  assumes "storedEntry tid st = Some e" "expiresAt e < now"
  shows "signalRetry now tid st =
     st\<lparr>runtimeStates := (runtimeStates st)\<lparr>store := AList.delete tid (store (runtimeStates st))\<rparr>\<rparr>"
  using assms by (simp add: signalRetry_def storedEntry_def TTLMap_get_def)

lemma getRuntimeState_fst:
  "fst (getRuntimeState now tid st) =
     (case storedEntry tid st of
        None \<Rightarrow> None
      | Some e \<Rightarrow> if expiresAt e < now then None else Some (val e))"
  by (simp add: getRuntimeState_def storedEntry_def TTLMap_get_def split: option.splits prod.splits)

lemma firstAdmitted_eq:
  "firstAdmitted cap =
     \<lparr>runtimeStates =
        \<lparr>store = [(''t1'', \<lparr>val = \<lparr>spawnCount = 1, retryDepth = 0, lastAttemptAt = 0\<rparr>,
                             expiresAt = 300000\<rparr>)],
         defaultTTL = 300000, maxSize = cap\<rparr>,
      dispatched = [(testTask ''t1'' None, SubRoutine ''default'')],
      emitted = []\<rparr>"
proof -
  let ?env = "testEnvelope [''default''] True"
  let ?T = "testTask ''t1'' None"
  have ne: "eligibleCandidates ?env \<noteq> []"
    and nodrop: "\<not> (allowDrop ?env \<and> avgPressure (flatPressure 0) > 0.9)"
    by (simp_all add: testEnvelope_def createDecisionEnvelope_def avgPressure_flat)
  have sel: "distributor (testRoutine testStrategy ?env) ?T ?env
        \<lparr>spawnCount = 0, retryDepth = 0, lastAttemptAt = 0\<rparr> (flatPressure 0) =
      Some \<lparr>primary = SubRoutine ''default'', cooperatives = []\<rparr>"
    using ne by (simp add: distributor_test)
  have tid: "task_id ?T = ''t1''" and bud: "spawnBudget (metadata ?T) = 5" "maxRetryDepth (metadata ?T) = 3"
    by (simp_all add: testTask_def)
  have onD: "\<not> onDecision (testRoutine testStrategy ?env)" by (simp add: testRoutine_def)
  show ?thesis
    using nodrop unfolding firstAdmitted_def defaultRoutine_def
    by (simp add: admit_def Let_def tid bud testState_def getOrCreate_new sel emitDecision_def onD
        TTLMap_set_def)
qed

lemma storedEntry_firstAdmitted:
  "storedEntry k (firstAdmitted cap) =
     (if k = ''t1'' then Some \<lparr>val = \<lparr>spawnCount = 1, retryDepth = 0, lastAttemptAt = 0\<rparr>,
                               expiresAt = 300000\<rparr> else None)"
  by (simp add: firstAdmitted_eq storedEntry_def)

section \<open>Admission and the stored entry\<close>

lemma getOrCreate_defaultTTL:
  "defaultTTL (snd (getOrCreateRuntimeState now tid rs)) = defaultTTL rs"
  by (auto simp: getOrCreateRuntimeState_def TTLMap_get_def Let_def split: option.splits)


lemma admit_entry:
  assumes "getOrCreateRuntimeState now (task_id task) (runtimeStates st) = (s, rs)"
  shows "storedEntry (task_id task) (snd (admit R now pressure task st)) =
     (if fst (admit R now pressure task st) = Dispatch
      then Some \<lparr>val = s\<lparr>spawnCount := spawnCount s + 1, lastAttemptAt := now\<rparr>,
                 expiresAt = now + defaultTTL (runtimeStates st)\<rparr>
      else map_of (store rs) (task_id task))"
    and "fst (admit R now pressure task st) \<noteq> Dispatch \<Longrightarrow>
         runtimeStates (snd (admit R now pressure task st)) = rs"
proof -
  have d: "defaultTTL rs = defaultTTL (runtimeStates st)"
    using getOrCreate_defaultTTL [of now "task_id task" "runtimeStates st"] assms by simp
  show "storedEntry (task_id task) (snd (admit R now pressure task st)) =
     (if fst (admit R now pressure task st) = Dispatch
      then Some \<lparr>val = s\<lparr>spawnCount := spawnCount s + 1, lastAttemptAt := now\<rparr>,
                 expiresAt = now + defaultTTL (runtimeStates st)\<rparr>
      else map_of (store rs) (task_id task))"
    by (simp add: storedEntry_def admit_runtimeStates admit_decision assms map_of_TTLMap_set_same d)
  show "fst (admit R now pressure task st) \<noteq> Dispatch \<Longrightarrow>
         runtimeStates (snd (admit R now pressure task st)) = rs"
    by (simp add: admit_runtimeStates admit_decision assms)
qed

lemma admit_defaultTTL:
  "defaultTTL (runtimeStates (snd (admit R now pressure task st))) = defaultTTL (runtimeStates st)"
proof -
  obtain s rs where g: "getOrCreateRuntimeState now (task_id task) (runtimeStates st) = (s, rs)"
    by (cases "getOrCreateRuntimeState now (task_id task) (runtimeStates st)")
  have d: "defaultTTL rs = defaultTTL (runtimeStates st)"
    using getOrCreate_defaultTTL [of now "task_id task" "runtimeStates st"] g by simp
  show ?thesis by (simp add: admit_runtimeStates g d)
qed


lemma distributor_default:
  "task_id task = ident \<Longrightarrow> intent (metadata task) = None \<Longrightarrow>
   distributor defaultRoutine task (testEnvelope [''default''] True) s p =
     (if spawnBudget (metadata task) \<le> spawnCount s \<or> maxRetryDepth (metadata task) \<le> retryDepth s
      then None else Some \<lparr>primary = SubRoutine ''default'', cooperatives = []\<rparr>)"
  by (simp add: defaultRoutine_def testRoutine_def testStrategy_def createCircuitDistributor_def
      createIntentBasedStrategy_def checkEligibility_def createSimpleFactory_def Let_def
      testEnvelope_def createDecisionEnvelope_def)

lemma resolve_default [simp]: "resolveEnvelope defaultRoutine task = testEnvelope [''default''] True"
  by (simp add: defaultRoutine_def)

lemma budgetTask_simps [simp]:
  "task_id (budgetTask ident b) = ident"
  "intent (metadata (budgetTask ident b)) = None"
  "spawnBudget (metadata (budgetTask ident b)) = b"
  "maxRetryDepth (metadata (budgetTask ident b)) = 3"
  by (simp_all add: budgetTask_def)

lemma testTask_simps [simp]:
  "task_id (testTask ident i) = ident"
  "intent (metadata (testTask ident i)) = i"
  "spawnBudget (metadata (testTask ident i)) = 5"
  "maxRetryDepth (metadata (testTask ident i)) = 3"
  by (simp_all add: testTask_def)

lemma testState_simps [simp]:
  "runtimeStates (testState cap) = TTLMap_new 300000 cap"
  "dispatched (testState cap) = []"
  "emitted (testState cap) = []"
  by (simp_all add: testState_def)

lemma allowDrop_test [simp]: "allowDrop (testEnvelope cands d) = d"
  by (simp add: testEnvelope_def createDecisionEnvelope_def)

section \<open>Isolation between tasks\<close>

lemma evictOldest_other:
  "map_of (store (evictOldest m)) a = map_of (store m) a \<or> map_of (store (evictOldest m)) a = None"
  by (auto simp: evictOldest_def AList.delete_conv' split: option.splits)

lemma evictOldest_length: "length (store (evictOldest m)) \<le> length (store m)"
  by (auto simp: evictOldest_def AList.length_delete_le split: option.splits)

lemma TTLMap_set_other:
  assumes "a \<noteq> k"
  shows "map_of (store (TTLMap_set now k v ttl m)) a = map_of (store m) a \<or>
         map_of (store (TTLMap_set now k v ttl m)) a = None"
  using assms evictOldest_other [of m a]
  by (auto simp: TTLMap_set_def Let_def AList.update_conv')

lemma TTLMap_set_other_keep:
  assumes "a \<noteq> k" "length (store m) < maxSize m \<or> map_of (store m) k \<noteq> None"
  shows "map_of (store (TTLMap_set now k v ttl m)) a = map_of (store m) a"
  using assms by (auto simp: TTLMap_set_def Let_def AList.update_conv')

lemma TTLMap_set_length: "length (store (TTLMap_set now k v ttl m)) \<le> Suc (length (store m))"
  using evictOldest_length [of m]
  by (auto simp: TTLMap_set_def Let_def length_update)

lemma TTLMap_set_length_present:
  "map_of (store m) k \<noteq> None \<Longrightarrow> length (store (TTLMap_set now k v ttl m)) = length (store m)"
  by (auto simp: TTLMap_set_def Let_def length_update map_of_None_iff)

lemma TTLMap_get_other:
  "a \<noteq> k \<Longrightarrow> map_of (store (snd (TTLMap_get now k m))) a = map_of (store m) a"
  by (auto simp: TTLMap_get_def split: option.splits)

lemma TTLMap_get_length: "length (store (snd (TTLMap_get now k m))) \<le> length (store m)"
  by (auto simp: TTLMap_get_def AList.length_delete_le split: option.splits)

lemma getOrCreate_present:
  "map_of (store (snd (getOrCreateRuntimeState now tid m))) tid \<noteq> None"
  by (auto simp: getOrCreateRuntimeState_def TTLMap_get_def Let_def map_of_TTLMap_set_same
      split: option.splits)

lemma getOrCreate_snd:
  "snd (getOrCreateRuntimeState now tid m) =
     (case fst (TTLMap_get now tid m) of
        Some existing \<Rightarrow> m
      | None \<Rightarrow> TTLMap_set now tid \<lparr>spawnCount = 0, retryDepth = 0, lastAttemptAt = now\<rparr> None
                  (snd (TTLMap_get now tid m)))"
  by (auto simp: getOrCreateRuntimeState_def TTLMap_get_def Let_def split: option.splits)

lemma getOrCreate_other:
  assumes "a \<noteq> tid"
  shows "map_of (store (snd (getOrCreateRuntimeState now tid m))) a = map_of (store m) a \<or>
         map_of (store (snd (getOrCreateRuntimeState now tid m))) a = None"
proof (cases "fst (TTLMap_get now tid m)")
  case None
  let ?init = "\<lparr>spawnCount = 0, retryDepth = 0, lastAttemptAt = now\<rparr>"
  from TTLMap_set_other [OF assms, of now ?init None "snd (TTLMap_get now tid m)"]
    TTLMap_get_other [OF assms, of now m]
  show ?thesis by (auto simp: getOrCreate_snd None)
next
  case (Some s)
  then show ?thesis by (simp add: getOrCreate_snd)
qed

lemma getOrCreate_other_keep:
  assumes "a \<noteq> tid" "length (store m) \<le> maxSize m"
    "tid \<in> keysOf m \<or> length (store m) < maxSize m"
  shows "map_of (store (snd (getOrCreateRuntimeState now tid m))) a = map_of (store m) a"
proof (cases "fst (TTLMap_get now tid m)")
  case None
  let ?init = "\<lparr>spawnCount = 0, retryDepth = 0, lastAttemptAt = now\<rparr>"
  let ?m' = "snd (TTLMap_get now tid m)"
  have room: "length (store ?m') < maxSize ?m'"
  proof (cases "map_of (store m) tid")
    case None
    then have "tid \<notin> keysOf m" by (simp add: keysOf_def map_of_None_iff)
    with assms(3) have "length (store m) < maxSize m" by simp
    with TTLMap_get_absent [OF None, of now] show ?thesis by simp
  next
    case (Some e)
    with \<open>fst (TTLMap_get now tid m) = None\<close> have ex: "expiresAt e < now"
      by (simp add: TTLMap_get_def split: if_splits)
    from Some have "tid \<in> fst ` set (store m)"
      by (metis map_of_None_iff option.distinct(1))
    then have "length (AList.delete tid (store m)) < length (store m)"
      by (rule length_delete_present)
    with assms(2) Some ex show ?thesis by (simp add: TTLMap_get_def)
  qed
  from TTLMap_set_other_keep [OF assms(1), of ?m' now ?init None] room
    TTLMap_get_other [OF assms(1), of now m]
  show ?thesis by (simp add: getOrCreate_snd None)
next
  case (Some s)
  then show ?thesis by (simp add: getOrCreate_snd)
qed

lemma admit_other_eq:
  assumes "a \<noteq> task_id task"
  shows "map_of (store (runtimeStates (snd (admit R now p task st)))) a =
         map_of (store (snd (getOrCreateRuntimeState now (task_id task) (runtimeStates st)))) a"
proof -
  obtain s rs where g: "getOrCreateRuntimeState now (task_id task) (runtimeStates st) = (s, rs)"
    by (cases "getOrCreateRuntimeState now (task_id task) (runtimeStates st)")
  have pres: "map_of (store rs) (task_id task) \<noteq> None"
    using getOrCreate_present [of now "task_id task" "runtimeStates st"] g by simp
  show ?thesis
    using TTLMap_set_other_keep [OF assms, of rs now _ None] pres
    by (simp add: admit_runtimeStates g)
qed

lemma admit_length:
  "length (store (runtimeStates (snd (admit R now p task st)))) \<le> Suc (length (store (runtimeStates st)))"
proof -
  let ?m = "runtimeStates st"
  obtain s rs where g: "getOrCreateRuntimeState now (task_id task) ?m = (s, rs)"
    by (cases "getOrCreateRuntimeState now (task_id task) ?m")
  have pres: "map_of (store rs) (task_id task) \<noteq> None"
    using getOrCreate_present [of now "task_id task" ?m] g by simp
  have "length (store rs) \<le> Suc (length (store ?m))"
  proof (cases "fst (TTLMap_get now (task_id task) ?m)")
    case None
    let ?init = "\<lparr>spawnCount = 0, retryDepth = 0, lastAttemptAt = now\<rparr>"
    have "length (store rs) \<le> Suc (length (store (snd (TTLMap_get now (task_id task) ?m))))"
      using TTLMap_set_length [of now "task_id task" ?init None "snd (TTLMap_get now (task_id task) ?m)"]
        getOrCreate_snd [of now "task_id task" ?m] g None by simp
    with TTLMap_get_length [of now "task_id task" ?m] show ?thesis by simp
  next
    case (Some x)
    with getOrCreate_snd [of now "task_id task" ?m] g show ?thesis by simp
  qed
  with pres show ?thesis
    by (simp add: admit_runtimeStates g TTLMap_set_length_present)
qed

lemma getOrCreate_maxSize:
  "maxSize (snd (getOrCreateRuntimeState now tid rs)) = maxSize rs"
  by (auto simp: getOrCreateRuntimeState_def TTLMap_get_def Let_def split: option.splits)

lemma admit_maxSize:
  "maxSize (runtimeStates (snd (admit R now p task st))) = maxSize (runtimeStates st)"
proof -
  obtain s rs where g: "getOrCreateRuntimeState now (task_id task) (runtimeStates st) = (s, rs)"
    by (cases "getOrCreateRuntimeState now (task_id task) (runtimeStates st)")
  have d: "maxSize rs = maxSize (runtimeStates st)"
    using getOrCreate_maxSize [of now "task_id task" "runtimeStates st"] g by simp
  show ?thesis by (simp add: admit_runtimeStates g d)
qed

lemma getOrCreate_fst:
  "fst (getOrCreateRuntimeState now tid m) =
     (case map_of (store m) tid of
        None \<Rightarrow> \<lparr>spawnCount = 0, retryDepth = 0, lastAttemptAt = now\<rparr>
      | Some e \<Rightarrow> if expiresAt e < now then \<lparr>spawnCount = 0, retryDepth = 0, lastAttemptAt = now\<rparr>
                  else val e)"
  by (auto simp: getOrCreateRuntimeState_def TTLMap_get_def Let_def split: option.splits)

lemma admit_decision_own_entry:
  assumes "storedEntry (task_id task) st1 = storedEntry (task_id task) st2"
  shows "fst (admit R now p task st1) = fst (admit R now p task st2)"
  using assms by (simp add: admit_decision getOrCreate_fst storedEntry_def)

lemma admitAll_other:
  assumes "\<forall>(t, p, task) \<in> set calls. task_id task \<noteq> a"
    "length (store (runtimeStates st)) + length calls \<le> maxSize (runtimeStates st)"
  shows "storedEntry a (admitAll R calls st) = storedEntry a st"
  using assms
proof (induction calls arbitrary: st)
  case Nil
  then show ?case by simp
next
  case (Cons c calls)
  obtain t p task where c: "c = (t, p, task)" by (cases c)
  let ?st' = "snd (admit R t p task st)"
  from Cons.prems(1) c have ne: "a \<noteq> task_id task" by auto
  from Cons.prems(2) have room: "length (store (runtimeStates st)) < maxSize (runtimeStates st)"
    by simp
  have keep: "storedEntry a ?st' = storedEntry a st"
    using getOrCreate_other_keep [OF ne, of "runtimeStates st" t] room
    by (simp add: admit_other_eq [OF ne] storedEntry_def)
  have "length (store (runtimeStates ?st')) + length calls \<le> maxSize (runtimeStates ?st')"
    using admit_length [of R t p task st] Cons.prems(2) by (simp add: admit_maxSize)
  moreover have "\<forall>(t, p, task) \<in> set calls. task_id task \<noteq> a" using Cons.prems(1) by simp
  ultimately have "storedEntry a (admitAll R calls ?st') = storedEntry a ?st'"
    by (rule Cons.IH [rotated])
  with keep show ?case by (simp add: c)
qed

text \<open>
  Claim C9, amended. An \<open>admit\<close> for task B never alters the entry of another task A: it
  leaves the entry as it is or, by capacity eviction, removes it whole. When the map is
  within its capacity and B already has an entry or the map is below capacity, A's entry is
  unchanged, and so is the decision A would receive. The same holds after any sequence of
  admissions of other tasks for which the map has room.
\<close>

theorem admission_isolation:
  "(a \<noteq> task_id taskB \<longrightarrow>
      (storedEntry a (snd (admit R now p taskB st)) = storedEntry a st \<or>
       storedEntry a (snd (admit R now p taskB st)) = None) \<and>
      (length (store (runtimeStates st)) \<le> maxSize (runtimeStates st) \<and>
       (task_id taskB \<in> keysOf (runtimeStates st) \<or>
        length (store (runtimeStates st)) < maxSize (runtimeStates st)) \<longrightarrow>
         storedEntry a (snd (admit R now p taskB st)) = storedEntry a st \<and>
         (task_id taskA = a \<longrightarrow>
            fst (admit R t q taskA (snd (admit R now p taskB st))) = fst (admit R t q taskA st)))) \<and>
   ((\<forall>(t', p', task) \<in> set calls. task_id task \<noteq> a) \<and>
    length (store (runtimeStates st)) + length calls \<le> maxSize (runtimeStates st) \<longrightarrow>
      storedEntry a (admitAll R calls st) = storedEntry a st \<and>
      (task_id taskA = a \<longrightarrow>
         fst (admit R t q taskA (admitAll R calls st)) = fst (admit R t q taskA st)))"
proof -
  have one: "storedEntry a (snd (admit R now p taskB st)) = storedEntry a st \<or>
       storedEntry a (snd (admit R now p taskB st)) = None"
    if ne: "a \<noteq> task_id taskB"
    using getOrCreate_other [OF ne, of now "runtimeStates st"]
    by (simp add: admit_other_eq [OF ne] storedEntry_def)
  have keep: "storedEntry a (snd (admit R now p taskB st)) = storedEntry a st \<and>
         (task_id taskA = a \<longrightarrow>
            fst (admit R t q taskA (snd (admit R now p taskB st))) = fst (admit R t q taskA st))"
    if ne: "a \<noteq> task_id taskB" and inv: "length (store (runtimeStates st)) \<le> maxSize (runtimeStates st)"
      and room: "task_id taskB \<in> keysOf (runtimeStates st) \<or>
        length (store (runtimeStates st)) < maxSize (runtimeStates st)"
  proof -
    have e: "storedEntry a (snd (admit R now p taskB st)) = storedEntry a st"
      using getOrCreate_other_keep [OF ne inv room, of now]
      by (simp add: admit_other_eq [OF ne] storedEntry_def)
    have "fst (admit R t q taskA (snd (admit R now p taskB st))) = fst (admit R t q taskA st)"
      if "task_id taskA = a"
      by (rule admit_decision_own_entry) (simp add: that e)
    with e show ?thesis by blast
  qed
  have many: "storedEntry a (admitAll R calls st) = storedEntry a st \<and>
      (task_id taskA = a \<longrightarrow>
         fst (admit R t q taskA (admitAll R calls st)) = fst (admit R t q taskA st))"
    if h: "\<forall>(t', p', task) \<in> set calls. task_id task \<noteq> a"
      "length (store (runtimeStates st)) + length calls \<le> maxSize (runtimeStates st)"
  proof -
    have e: "storedEntry a (admitAll R calls st) = storedEntry a st"
      using h by (rule admitAll_other)
    have "fst (admit R t q taskA (admitAll R calls st)) = fst (admit R t q taskA st)"
      if "task_id taskA = a"
      by (rule admit_decision_own_entry) (simp add: that e)
    with e show ?thesis by blast
  qed
  show ?thesis
  proof (intro conjI impI)
    assume "a \<noteq> task_id taskB"
    then show "storedEntry a (snd (admit R now p taskB st)) = storedEntry a st \<or>
       storedEntry a (snd (admit R now p taskB st)) = None" by (rule one)
  next
    assume ne: "a \<noteq> task_id taskB"
      and c: "length (store (runtimeStates st)) \<le> maxSize (runtimeStates st) \<and>
       (task_id taskB \<in> keysOf (runtimeStates st) \<or>
        length (store (runtimeStates st)) < maxSize (runtimeStates st))"
    from keep [OF ne] c
    show "storedEntry a (snd (admit R now p taskB st)) = storedEntry a st" by blast
  next
    assume ne: "a \<noteq> task_id taskB"
      and c: "length (store (runtimeStates st)) \<le> maxSize (runtimeStates st) \<and>
       (task_id taskB \<in> keysOf (runtimeStates st) \<or>
        length (store (runtimeStates st)) < maxSize (runtimeStates st))"
      and a: "task_id taskA = a"
    from keep [OF ne] c a
    show "fst (admit R t q taskA (snd (admit R now p taskB st))) = fst (admit R t q taskA st)"
      by blast
  next
    assume "(\<forall>(t', p', task) \<in> set calls. task_id task \<noteq> a) \<and>
      length (store (runtimeStates st)) + length calls \<le> maxSize (runtimeStates st)"
    with many show "storedEntry a (admitAll R calls st) = storedEntry a st" by blast
  next
    assume "(\<forall>(t', p', task) \<in> set calls. task_id task \<noteq> a) \<and>
      length (store (runtimeStates st)) + length calls \<le> maxSize (runtimeStates st)"
      and "task_id taskA = a"
    with many show "fst (admit R t q taskA (admitAll R calls st)) = fst (admit R t q taskA st)"
      by blast
  qed
qed

lemma onDecision_default [simp]: "\<not> onDecision defaultRoutine"
  by (simp add: defaultRoutine_def testRoutine_def)

lemmas admit_eval =
  admit_def Let_def getOrCreateRuntimeState_def TTLMap_get_def TTLMap_set_def evictOldest_def
  emitDecision_def TTLMap_new_def avgPressure_flat distributor_default

lemma admit_A:
  "0 < b \<Longrightarrow>
   snd (admit defaultRoutine 0 (flatPressure 0) (budgetTask ''A'' b) (testState cap)) =
     \<lparr>runtimeStates =
        \<lparr>store = [(''A'', \<lparr>val = \<lparr>spawnCount = 1, retryDepth = 0, lastAttemptAt = 0\<rparr>,
                            expiresAt = 300000\<rparr>)],
         defaultTTL = 300000, maxSize = cap\<rparr>,
      dispatched = [(budgetTask ''A'' b, SubRoutine ''default'')],
      emitted = []\<rparr>"
  by (simp add: admit_eval)

lemma admit_AB:
  "1 < cap \<Longrightarrow> 0 < b \<Longrightarrow> 0 < b' \<Longrightarrow>
   snd (admit defaultRoutine 1 (flatPressure 0) (budgetTask ''B'' b')
     (snd (admit defaultRoutine 0 (flatPressure 0) (budgetTask ''A'' b) (testState cap)))) =
     \<lparr>runtimeStates =
        \<lparr>store = [(''A'', \<lparr>val = \<lparr>spawnCount = 1, retryDepth = 0, lastAttemptAt = 0\<rparr>,
                            expiresAt = 300000\<rparr>),
                  (''B'', \<lparr>val = \<lparr>spawnCount = 1, retryDepth = 0, lastAttemptAt = 1\<rparr>,
                            expiresAt = 300001\<rparr>)],
         defaultTTL = 300000, maxSize = cap\<rparr>,
      dispatched = [(budgetTask ''A'' b, SubRoutine ''default''),
                    (budgetTask ''B'' b', SubRoutine ''default'')],
      emitted = []\<rparr>"
  by (simp add: admit_A) (simp add: admit_eval)

lemma admit_ABC:
  "0 < b \<Longrightarrow> 0 < b' \<Longrightarrow> 0 < b'' \<Longrightarrow>
   snd (admit defaultRoutine 2 (flatPressure 0) (budgetTask ''C'' b'')
     (snd (admit defaultRoutine 1 (flatPressure 0) (budgetTask ''B'' b')
       (snd (admit defaultRoutine 0 (flatPressure 0) (budgetTask ''A'' b) (testState 2)))))) =
     \<lparr>runtimeStates =
        \<lparr>store = [(''B'', \<lparr>val = \<lparr>spawnCount = 1, retryDepth = 0, lastAttemptAt = 1\<rparr>,
                            expiresAt = 300001\<rparr>),
                  (''C'', \<lparr>val = \<lparr>spawnCount = 1, retryDepth = 0, lastAttemptAt = 2\<rparr>,
                            expiresAt = 300002\<rparr>)],
         defaultTTL = 300000, maxSize = 2\<rparr>,
      dispatched = [(budgetTask ''A'' b, SubRoutine ''default''),
                    (budgetTask ''B'' b', SubRoutine ''default''),
                    (budgetTask ''C'' b'', SubRoutine ''default'')],
      emitted = []\<rparr>"
  by (simp add: admit_AB) (simp add: admit_eval)

text \<open>
  With room for two tasks, A (budget 1) is admitted, then B, then C: the entry of A is
  evicted by the admission of C, and A, which would have been dropped, is dispatched again.
\<close>

theorem admission_isolation_counterexample:
  "storedEntry ''A''
     (snd (admit defaultRoutine 1 (flatPressure 0) (budgetTask ''B'' 1)
       (snd (admit defaultRoutine 0 (flatPressure 0) (budgetTask ''A'' 1) (testState 2))))) =
     Some \<lparr>val = \<lparr>spawnCount = 1, retryDepth = 0, lastAttemptAt = 0\<rparr>, expiresAt = 300000\<rparr> \<and>
   fst (admit defaultRoutine 3 (flatPressure 0) (budgetTask ''A'' 1)
     (snd (admit defaultRoutine 1 (flatPressure 0) (budgetTask ''B'' 1)
       (snd (admit defaultRoutine 0 (flatPressure 0) (budgetTask ''A'' 1) (testState 2)))))) =
     Drop spawn_budget_exhausted 0 \<and>
   storedEntry ''A''
     (snd (admit defaultRoutine 2 (flatPressure 0) (budgetTask ''C'' 1)
       (snd (admit defaultRoutine 1 (flatPressure 0) (budgetTask ''B'' 1)
         (snd (admit defaultRoutine 0 (flatPressure 0) (budgetTask ''A'' 1) (testState 2))))))) = None \<and>
   fst (admit defaultRoutine 3 (flatPressure 0) (budgetTask ''A'' 1)
     (snd (admit defaultRoutine 2 (flatPressure 0) (budgetTask ''C'' 1)
       (snd (admit defaultRoutine 1 (flatPressure 0) (budgetTask ''B'' 1)
         (snd (admit defaultRoutine 0 (flatPressure 0) (budgetTask ''A'' 1) (testState 2)))))))) =
     Dispatch"
proof -
  let ?A = "budgetTask ''A'' 1"
  let ?SB = "snd (admit defaultRoutine 1 (flatPressure 0) (budgetTask ''B'' 1)
       (snd (admit defaultRoutine 0 (flatPressure 0) ?A (testState 2))))"
  let ?SC = "snd (admit defaultRoutine 2 (flatPressure 0) (budgetTask ''C'' 1) ?SB)"
  have sB: "storedEntry ''A'' ?SB =
      Some \<lparr>val = \<lparr>spawnCount = 1, retryDepth = 0, lastAttemptAt = 0\<rparr>, expiresAt = 300000\<rparr>"
    by (simp add: admit_AB storedEntry_def)
  have sC: "storedEntry ''A'' ?SC = None"
    using admit_ABC [of 1 1 1] by (simp add: storedEntry_def)
  have dB: "fst (admit defaultRoutine 3 (flatPressure 0) ?A ?SB) = Drop spawn_budget_exhausted 0"
    using sB by (simp add: admit_decision getOrCreate_fst decide_def storedEntry_def)
  have dC: "fst (admit defaultRoutine 3 (flatPressure 0) ?A ?SC) = Dispatch"
    using sC
    by (simp add: admit_decision getOrCreate_fst decide_def storedEntry_def avgPressure_flat
        distributor_default)
  from sB dB sC dC show ?thesis by blast
qed

theorem admission_isolation_witness:
  "storedEntry ''A''
     (snd (admit defaultRoutine 1 (flatPressure 0) (budgetTask ''B'' 1)
       (snd (admit defaultRoutine 0 (flatPressure 0) (budgetTask ''A'' 1) (testState 10000))))) =
     Some \<lparr>val = \<lparr>spawnCount = 1, retryDepth = 0, lastAttemptAt = 0\<rparr>, expiresAt = 300000\<rparr> \<and>
   fst (admit defaultRoutine 3 (flatPressure 0) (budgetTask ''A'' 1)
     (snd (admit defaultRoutine 1 (flatPressure 0) (budgetTask ''B'' 1)
       (snd (admit defaultRoutine 0 (flatPressure 0) (budgetTask ''A'' 1) (testState 10000)))))) =
     Drop spawn_budget_exhausted 0 \<and>
   storedEntry ''A''
     (admitAll defaultRoutine
        [(1, flatPressure 0, budgetTask ''B'' 1), (2, flatPressure 0.5, budgetTask ''C'' 1)]
        (snd (admit defaultRoutine 0 (flatPressure 0) (budgetTask ''A'' 1) (testState 10000)))) =
     Some \<lparr>val = \<lparr>spawnCount = 1, retryDepth = 0, lastAttemptAt = 0\<rparr>, expiresAt = 300000\<rparr> \<and>
   fst (admit defaultRoutine 3 (flatPressure 0) (budgetTask ''A'' 1)
     (admitAll defaultRoutine
        [(1, flatPressure 0, budgetTask ''B'' 1), (2, flatPressure 0.5, budgetTask ''C'' 1)]
        (snd (admit defaultRoutine 0 (flatPressure 0) (budgetTask ''A'' 1) (testState 10000))))) =
     Drop spawn_budget_exhausted 0"
proof -
  let ?A = "budgetTask ''A'' 1"
  let ?B = "budgetTask ''B'' 1"
  let ?S = "snd (admit defaultRoutine 0 (flatPressure 0) ?A (testState 10000))"
  let ?calls = "[(1::int, flatPressure 0, ?B), (2, flatPressure 0.5, budgetTask ''C'' 1)]"
  have e: "storedEntry ''A'' ?S =
      Some \<lparr>val = \<lparr>spawnCount = 1, retryDepth = 0, lastAttemptAt = 0\<rparr>, expiresAt = 300000\<rparr>"
    by (simp add: admit_A storedEntry_def)
  have d: "fst (admit defaultRoutine 3 (flatPressure 0) ?A ?S) = Drop spawn_budget_exhausted 0"
    by (simp add: admit_decision getOrCreate_fst decide_def admit_A)
  have ne: "''A'' \<noteq> task_id ?B" and a: "task_id ?A = ''A''" by simp_all
  have inv: "length (store (runtimeStates ?S)) \<le> maxSize (runtimeStates ?S) \<and>
       (task_id ?B \<in> keysOf (runtimeStates ?S) \<or>
        length (store (runtimeStates ?S)) < maxSize (runtimeStates ?S))"
    by (simp add: admit_A)
  have others: "(\<forall>(t', p', task) \<in> set ?calls. task_id task \<noteq> ''A'') \<and>
    length (store (runtimeStates ?S)) + length ?calls \<le> maxSize (runtimeStates ?S)"
    by (simp add: admit_A)
  note T = admission_isolation [of "''A''" ?B defaultRoutine 1 "flatPressure 0" ?S ?A 3 "flatPressure 0" ?calls]
  from T ne inv a have 1: "storedEntry ''A'' (snd (admit defaultRoutine 1 (flatPressure 0) ?B ?S)) =
      storedEntry ''A'' ?S"
    and 2: "fst (admit defaultRoutine 3 (flatPressure 0) ?A (snd (admit defaultRoutine 1 (flatPressure 0) ?B ?S))) =
      fst (admit defaultRoutine 3 (flatPressure 0) ?A ?S)"
    by blast+
  from T others a have 3: "storedEntry ''A'' (admitAll defaultRoutine ?calls ?S) = storedEntry ''A'' ?S"
    and 4: "fst (admit defaultRoutine 3 (flatPressure 0) ?A (admitAll defaultRoutine ?calls ?S)) =
      fst (admit defaultRoutine 3 (flatPressure 0) ?A ?S)"
    by blast+
  from 1 2 3 4 e d show ?thesis by simp
qed

section \<open>Retry depth\<close>

text \<open>
  Claim C2, amended. On a live entry \<open>signalRetry\<close> stores the state with \<open>retryDepth\<close> one
  higher, re-arms the expiry and touches no other task's entry. On an unknown id it leaves
  the whole state as it was. On an expired id it increments and creates nothing, but it is
  not a no-op: the stale entry is removed from the store; the runtime state that
  \<open>getRuntimeState\<close> shows for every id is the same before and after. While the entry is
  live with \<open>retryDepth \<ge> maxRetryDepth\<close>, \<open>admit\<close> returns \<open>drop(retry_depth_exhausted)\<close>
  when \<open>spawnCount < spawnBudget\<close> and \<open>drop(spawn_budget_exhausted)\<close> otherwise. When the
  task has no live entry, \<open>admit\<close> decides as for a task it has never seen, and with
  positive budgets it never drops for the retry depth.
\<close>

theorem retry_depth_accounting:
  "(storedEntry tid st = Some e \<and> now \<le> expiresAt e \<longrightarrow>
      storedEntry tid (signalRetry now tid st) =
        Some \<lparr>val = (val e)\<lparr>retryDepth := retryDepth (val e) + 1\<rparr>,
              expiresAt = now + defaultTTL (runtimeStates st)\<rparr> \<and>
      (\<forall>k. k \<noteq> tid \<longrightarrow> storedEntry k (signalRetry now tid st) = storedEntry k st) \<and>
      (0 \<le> defaultTTL (runtimeStates st) \<longrightarrow>
         fst (getRuntimeState now tid (signalRetry now tid st)) =
           Some ((val e)\<lparr>retryDepth := retryDepth (val e) + 1\<rparr>))) \<and>
   (storedEntry tid st = None \<longrightarrow> signalRetry now tid st = st) \<and>
   (storedEntry tid st = Some e \<and> expiresAt e < now \<longrightarrow>
      signalRetry now tid st =
        st\<lparr>runtimeStates := (runtimeStates st)\<lparr>store := AList.delete tid (store (runtimeStates st))\<rparr>\<rparr> \<and>
      storedEntry tid (signalRetry now tid st) = None \<and>
      signalRetry now tid st \<noteq> st) \<and>
   (fst (getRuntimeState now tid st) = None \<longrightarrow>
      (\<forall>k. fst (getRuntimeState now k (signalRetry now tid st)) = fst (getRuntimeState now k st)) \<and>
      (\<forall>k. k \<noteq> tid \<longrightarrow> storedEntry k (signalRetry now tid st) = storedEntry k st) \<and>
      storedEntry tid (signalRetry now tid st) = None \<and>
      dispatched (signalRetry now tid st) = dispatched st \<and>
      emitted (signalRetry now tid st) = emitted st) \<and>
   (storedEntry (task_id task) st = Some e \<and> now \<le> expiresAt e \<and>
    maxRetryDepth (metadata task) \<le> retryDepth (val e) \<longrightarrow>
      fst (admit R now pressure task st) =
        (if spawnBudget (metadata task) \<le> spawnCount (val e)
         then Drop spawn_budget_exhausted (retryDepth (val e))
         else Drop retry_depth_exhausted (retryDepth (val e)))) \<and>
   (fst (getRuntimeState now (task_id task) st) = None \<longrightarrow>
      fst (admit R now pressure task st) =
        fst (admit R now pressure task (st\<lparr>runtimeStates := TTLMap_clear (runtimeStates st)\<rparr>)) \<and>
      (0 < spawnBudget (metadata task) \<and> 0 < maxRetryDepth (metadata task) \<longrightarrow>
         (\<forall>n. fst (admit R now pressure task st) \<noteq> Drop retry_depth_exhausted n)))"
proof -
  have live: "storedEntry tid (signalRetry now tid st) =
        Some \<lparr>val = (val e)\<lparr>retryDepth := retryDepth (val e) + 1\<rparr>,
              expiresAt = now + defaultTTL (runtimeStates st)\<rparr> \<and>
      (\<forall>k. k \<noteq> tid \<longrightarrow> storedEntry k (signalRetry now tid st) = storedEntry k st) \<and>
      (0 \<le> defaultTTL (runtimeStates st) \<longrightarrow>
         fst (getRuntimeState now tid (signalRetry now tid st)) =
           Some ((val e)\<lparr>retryDepth := retryDepth (val e) + 1\<rparr>))"
    if h: "storedEntry tid st = Some e" "now \<le> expiresAt e"
  proof -
    have 1: "storedEntry tid (signalRetry now tid st) =
        Some \<lparr>val = (val e)\<lparr>retryDepth := retryDepth (val e) + 1\<rparr>,
              expiresAt = now + defaultTTL (runtimeStates st)\<rparr>"
      by (simp add: signalRetry_live [OF h] storedEntry_def AList.update_conv')
    have 2: "\<forall>k. k \<noteq> tid \<longrightarrow> storedEntry k (signalRetry now tid st) = storedEntry k st"
      by (simp add: signalRetry_live [OF h] storedEntry_def AList.update_conv')
    from 1 have 3: "0 \<le> defaultTTL (runtimeStates st) \<longrightarrow>
         fst (getRuntimeState now tid (signalRetry now tid st)) =
           Some ((val e)\<lparr>retryDepth := retryDepth (val e) + 1\<rparr>)"
      by (simp add: getRuntimeState_fst)
    from 1 2 3 show ?thesis by blast
  qed
  have absent: "signalRetry now tid st = st" if "storedEntry tid st = None"
    using that by (rule signalRetry_absent)
  have expired: "signalRetry now tid st =
        st\<lparr>runtimeStates := (runtimeStates st)\<lparr>store := AList.delete tid (store (runtimeStates st))\<rparr>\<rparr> \<and>
      storedEntry tid (signalRetry now tid st) = None \<and>
      signalRetry now tid st \<noteq> st"
    if h: "storedEntry tid st = Some e" "expiresAt e < now"
  proof -
    have 1: "signalRetry now tid st =
        st\<lparr>runtimeStates := (runtimeStates st)\<lparr>store := AList.delete tid (store (runtimeStates st))\<rparr>\<rparr>"
      by (rule signalRetry_expired [OF h])
    have 2: "storedEntry tid (signalRetry now tid st) = None"
      by (simp add: 1 storedEntry_def AList.delete_conv')
    from 2 h(1) have 3: "signalRetry now tid st \<noteq> st" by auto
    from 1 2 3 show ?thesis by blast
  qed
  have noop: "(\<forall>k. fst (getRuntimeState now k (signalRetry now tid st)) = fst (getRuntimeState now k st)) \<and>
      (\<forall>k. k \<noteq> tid \<longrightarrow> storedEntry k (signalRetry now tid st) = storedEntry k st) \<and>
      storedEntry tid (signalRetry now tid st) = None \<and>
      dispatched (signalRetry now tid st) = dispatched st \<and>
      emitted (signalRetry now tid st) = emitted st"
    if h: "fst (getRuntimeState now tid st) = None"
  proof (cases "storedEntry tid st")
    case None
    then show ?thesis by (simp add: signalRetry_absent)
  next
    case (Some e')
    with h have ex: "expiresAt e' < now"
      by (simp add: getRuntimeState_fst split: if_splits)
    have st: "storedEntry k (signalRetry now tid st) = (if k = tid then None else storedEntry k st)" for k
      by (simp add: signalRetry_expired [OF Some ex] storedEntry_def AList.delete_conv')
    have "fst (getRuntimeState now k (signalRetry now tid st)) = fst (getRuntimeState now k st)" for k
      using Some ex by (simp add: getRuntimeState_fst st)
    moreover have "dispatched (signalRetry now tid st) = dispatched st"
      "emitted (signalRetry now tid st) = emitted st"
      by (simp_all add: signalRetry_expired [OF Some ex])
    ultimately show ?thesis using st by simp
  qed
  have drop: "fst (admit R now pressure task st) =
        (if spawnBudget (metadata task) \<le> spawnCount (val e)
         then Drop spawn_budget_exhausted (retryDepth (val e))
         else Drop retry_depth_exhausted (retryDepth (val e)))"
    if "storedEntry (task_id task) st = Some e" "now \<le> expiresAt e"
      "maxRetryDepth (metadata task) \<le> retryDepth (val e)"
    using that by (simp add: admit_decision storedEntry_def getOrCreate_live decide_def)
  have fresh: "fst (admit R now pressure task st) =
        fst (admit R now pressure task (st\<lparr>runtimeStates := TTLMap_clear (runtimeStates st)\<rparr>)) \<and>
      (0 < spawnBudget (metadata task) \<and> 0 < maxRetryDepth (metadata task) \<longrightarrow>
         (\<forall>n. fst (admit R now pressure task st) \<noteq> Drop retry_depth_exhausted n))"
    if h: "fst (getRuntimeState now (task_id task) st) = None"
  proof -
    let ?s0 = "\<lparr>spawnCount = 0, retryDepth = 0, lastAttemptAt = now\<rparr>"
    from h have g: "fst (getOrCreateRuntimeState now (task_id task) (runtimeStates st)) = ?s0"
      by (simp add: getRuntimeState_fst getOrCreate_fst storedEntry_def split: option.splits if_splits)
    have g': "fst (getOrCreateRuntimeState now (task_id task) (TTLMap_clear (runtimeStates st))) = ?s0"
      by (simp add: getOrCreate_fst TTLMap_clear_def)
    have 1: "fst (admit R now pressure task st) =
        fst (admit R now pressure task (st\<lparr>runtimeStates := TTLMap_clear (runtimeStates st)\<rparr>))"
      by (simp add: admit_decision g g')
    have 2: "\<forall>n. fst (admit R now pressure task st) \<noteq> Drop retry_depth_exhausted n"
      if "0 < spawnBudget (metadata task)" "0 < maxRetryDepth (metadata task)"
      using that by (simp add: admit_decision g decide_def split: option.splits)
    from 1 2 show ?thesis by blast
  qed
  from live absent expired noop drop fresh show ?thesis by blast
qed

lemma threeRetries_eq:
  "signalRetry 30 ''t1'' (signalRetry 20 ''t1'' (signalRetry 10 ''t1'' (firstAdmitted cap))) =
     \<lparr>runtimeStates =
        \<lparr>store = [(''t1'', \<lparr>val = \<lparr>spawnCount = 1, retryDepth = 3, lastAttemptAt = 0\<rparr>,
                             expiresAt = 300030\<rparr>)],
         defaultTTL = 300000, maxSize = cap\<rparr>,
      dispatched = [(testTask ''t1'' None, SubRoutine ''default'')],
      emitted = []\<rparr>"
  by (simp add: signalRetry_def TTLMap_get_def TTLMap_set_def Let_def firstAdmitted_eq)

theorem retry_depth_accounting_witness:
  "storedEntry ''t1'' (signalRetry 10 ''t1'' (firstAdmitted 10000)) =
     Some \<lparr>val = \<lparr>spawnCount = 1, retryDepth = 1, lastAttemptAt = 0\<rparr>, expiresAt = 300010\<rparr> \<and>
   fst (getRuntimeState 10 ''t1'' (signalRetry 10 ''t1'' (firstAdmitted 10000))) =
     Some \<lparr>spawnCount = 1, retryDepth = 1, lastAttemptAt = 0\<rparr> \<and>
   signalRetry 10 ''unknown'' (firstAdmitted 10000) = firstAdmitted 10000 \<and>
   storedEntry ''t1'' (signalRetry 300001 ''t1'' (firstAdmitted 10000)) = None \<and>
   signalRetry 300001 ''t1'' (firstAdmitted 10000) \<noteq> firstAdmitted 10000 \<and>
   fst (getRuntimeState 300001 ''t1'' (signalRetry 300001 ''t1'' (firstAdmitted 10000))) =
     fst (getRuntimeState 300001 ''t1'' (firstAdmitted 10000)) \<and>
   fst (admit defaultRoutine 40 (flatPressure 0) (testTask ''t1'' None)
         (signalRetry 30 ''t1'' (signalRetry 20 ''t1'' (signalRetry 10 ''t1'' (firstAdmitted 10000))))) =
     Drop retry_depth_exhausted 3 \<and>
   fst (admit defaultRoutine 40 (flatPressure 0) (budgetTask ''t1'' 1)
         (signalRetry 30 ''t1'' (signalRetry 20 ''t1'' (signalRetry 10 ''t1'' (firstAdmitted 10000))))) =
     Drop spawn_budget_exhausted 3 \<and>
   (\<forall>n. fst (admit defaultRoutine 300031 (flatPressure 0) (testTask ''t1'' None)
         (signalRetry 30 ''t1'' (signalRetry 20 ''t1'' (signalRetry 10 ''t1'' (firstAdmitted 10000))))) \<noteq>
     Drop retry_depth_exhausted n)"
proof -
  let ?S = "firstAdmitted 10000"
  let ?T = "testTask ''t1'' None"
  let ?T1 = "budgetTask ''t1'' 1"
  let ?e = "\<lparr>val = \<lparr>spawnCount = 1, retryDepth = 0, lastAttemptAt = 0\<rparr>, expiresAt = 300000\<rparr>"
  have e: "storedEntry ''t1'' ?S = Some ?e" and live: "10 \<le> expiresAt ?e"
    and dead: "expiresAt ?e < 300001"
    and ttl: "defaultTTL (runtimeStates ?S) = 300000"
    and un: "storedEntry ''unknown'' ?S = None"
    and ex: "fst (getRuntimeState 300001 ''t1'' ?S) = None"
    by (simp_all add: storedEntry_firstAdmitted getRuntimeState_fst) (simp add: firstAdmitted_eq)
  from retry_depth_accounting [of "''t1''" ?S ?e 10] e live ttl
  have 1: "storedEntry ''t1'' (signalRetry 10 ''t1'' ?S) =
     Some \<lparr>val = \<lparr>spawnCount = 1, retryDepth = 1, lastAttemptAt = 0\<rparr>, expiresAt = 300010\<rparr>"
    and 2: "fst (getRuntimeState 10 ''t1'' (signalRetry 10 ''t1'' ?S)) =
     Some \<lparr>spawnCount = 1, retryDepth = 1, lastAttemptAt = 0\<rparr>"
    by simp_all
  from retry_depth_accounting [of "''unknown''" ?S] un
  have 3: "signalRetry 10 ''unknown'' ?S = ?S" by blast
  from retry_depth_accounting [of "''t1''" ?S ?e 300001] e dead
  have 4: "storedEntry ''t1'' (signalRetry 300001 ''t1'' ?S) = None"
    and 5: "signalRetry 300001 ''t1'' ?S \<noteq> ?S" by blast+
  from retry_depth_accounting [of "''t1''" ?S _ 300001] ex
  have 6: "fst (getRuntimeState 300001 ''t1'' (signalRetry 300001 ''t1'' ?S)) =
     fst (getRuntimeState 300001 ''t1'' ?S)" by blast
  let ?S3 = "signalRetry 30 ''t1'' (signalRetry 20 ''t1'' (signalRetry 10 ''t1'' ?S))"
  let ?e3 = "\<lparr>val = \<lparr>spawnCount = 1, retryDepth = 3, lastAttemptAt = 0\<rparr>, expiresAt = 300030\<rparr>"
  have e3: "storedEntry ''t1'' ?S3 = Some ?e3"
    by (simp add: threeRetries_eq storedEntry_def)
  have c: "task_id ?T = ''t1''" "40 \<le> expiresAt ?e3"
    "maxRetryDepth (metadata ?T) \<le> retryDepth (val ?e3)"
    "\<not> spawnBudget (metadata ?T) \<le> spawnCount (val ?e3)"
    by simp_all
  from retry_depth_accounting [of "''t1''" ?S3 ?e3 40 ?T defaultRoutine "flatPressure 0"] e3 c
  have 7: "fst (admit defaultRoutine 40 (flatPressure 0) ?T ?S3) = Drop retry_depth_exhausted 3"
    by simp
  have c1: "task_id ?T1 = ''t1''"
    "maxRetryDepth (metadata ?T1) \<le> retryDepth (val ?e3)"
    "spawnBudget (metadata ?T1) \<le> spawnCount (val ?e3)"
    by simp_all
  from retry_depth_accounting [of "''t1''" ?S3 ?e3 40 ?T1 defaultRoutine "flatPressure 0"] e3 c(2) c1
  have 8: "fst (admit defaultRoutine 40 (flatPressure 0) ?T1 ?S3) = Drop spawn_budget_exhausted 3"
    by simp
  have x: "fst (getRuntimeState 300031 (task_id ?T) ?S3) = None"
    "0 < spawnBudget (metadata ?T) \<and> 0 < maxRetryDepth (metadata ?T)"
    using e3 by (simp_all add: getRuntimeState_fst)
  from retry_depth_accounting [of _ ?S3 _ 300031 ?T defaultRoutine "flatPressure 0"] x
  have 9: "\<forall>n. fst (admit defaultRoutine 300031 (flatPressure 0) ?T ?S3) \<noteq> Drop retry_depth_exhausted n"
    by blast
  from 1 2 3 4 5 6 7 8 9 show ?thesis by blast
qed

text \<open>
  Three retry signals bring the stored \<open>retryDepth\<close> of \<open>t1\<close> to its \<open>maxRetryDepth\<close> of 3,
  with \<open>spawnCount = 1\<close> and expiry 300030. One millisecond after the expiry the next
  \<open>admit\<close> dispatches; with a spawn budget of 1 the \<open>admit\<close> made while the entry lives
  drops for the spawn budget, not for the retry depth; and \<open>signalRetry\<close> on the expired id
  removes the stored entry.
\<close>

theorem retry_depth_counterexample:
  "storedEntry ''t1'' (signalRetry 30 ''t1'' (signalRetry 20 ''t1'' (signalRetry 10 ''t1'' (firstAdmitted 10000)))) =
     Some \<lparr>val = \<lparr>spawnCount = 1, retryDepth = 3, lastAttemptAt = 0\<rparr>, expiresAt = 300030\<rparr> \<and>
   maxRetryDepth (metadata (testTask ''t1'' None)) = 3 \<and>
   fst (admit defaultRoutine 300031 (flatPressure 0) (testTask ''t1'' None)
         (signalRetry 30 ''t1'' (signalRetry 20 ''t1'' (signalRetry 10 ''t1'' (firstAdmitted 10000))))) =
     Dispatch \<and>
   fst (admit defaultRoutine 40 (flatPressure 0) (budgetTask ''t1'' 1)
         (signalRetry 30 ''t1'' (signalRetry 20 ''t1'' (signalRetry 10 ''t1'' (firstAdmitted 10000))))) =
     Drop spawn_budget_exhausted 3 \<and>
   storedEntry ''t1'' (firstAdmitted 10000) =
     Some \<lparr>val = \<lparr>spawnCount = 1, retryDepth = 0, lastAttemptAt = 0\<rparr>, expiresAt = 300000\<rparr> \<and>
   storedEntry ''t1'' (signalRetry 300001 ''t1'' (firstAdmitted 10000)) = None"
proof -
  let ?S3 = "signalRetry 30 ''t1'' (signalRetry 20 ''t1'' (signalRetry 10 ''t1'' (firstAdmitted 10000)))"
  have 1: "storedEntry ''t1'' ?S3 =
     Some \<lparr>val = \<lparr>spawnCount = 1, retryDepth = 3, lastAttemptAt = 0\<rparr>, expiresAt = 300030\<rparr>"
    by (simp add: threeRetries_eq storedEntry_def)
  have 2: "maxRetryDepth (metadata (testTask ''t1'' None)) = 3" by simp
  have 3: "fst (admit defaultRoutine 300031 (flatPressure 0) (testTask ''t1'' None) ?S3) = Dispatch"
    by (simp add: admit_decision getOrCreate_fst threeRetries_eq decide_def avgPressure_flat
        distributor_default)
  have 4: "fst (admit defaultRoutine 40 (flatPressure 0) (budgetTask ''t1'' 1) ?S3) =
     Drop spawn_budget_exhausted 3"
    by (simp add: admit_decision getOrCreate_fst threeRetries_eq decide_def)
  have 5: "storedEntry ''t1'' (firstAdmitted 10000) =
     Some \<lparr>val = \<lparr>spawnCount = 1, retryDepth = 0, lastAttemptAt = 0\<rparr>, expiresAt = 300000\<rparr>"
    by (simp add: storedEntry_firstAdmitted)
  have 6: "storedEntry ''t1'' (signalRetry 300001 ''t1'' (firstAdmitted 10000)) = None"
    by (simp add: signalRetry_def TTLMap_get_def firstAdmitted_eq storedEntry_def)
  from 1 2 3 4 5 6 show ?thesis by blast
qed

section \<open>Calls in sequence: one call and the entries of the tasks\<close>

lemma signalRetry_entry:
  assumes "storedEntry tid st = Some e" "now \<le> expiresAt e"
  shows "storedEntry tid (signalRetry now tid st) =
        Some \<lparr>val = (val e)\<lparr>retryDepth := retryDepth (val e) + 1\<rparr>,
              expiresAt = now + defaultTTL (runtimeStates st)\<rparr>"
    and "defaultTTL (runtimeStates (signalRetry now tid st)) = defaultTTL (runtimeStates st)"
  by (simp_all add: signalRetry_live [OF assms] storedEntry_def AList.update_conv')

lemma admit_live_dispatch:
  assumes "storedEntry (task_id task) st = Some e" "now \<le> expiresAt e"
    "fst (admit R now p task st) = Dispatch"
  shows "storedEntry (task_id task) (snd (admit R now p task st)) =
        Some \<lparr>val = (val e)\<lparr>spawnCount := spawnCount (val e) + 1, lastAttemptAt := now\<rparr>,
              expiresAt = now + defaultTTL (runtimeStates st)\<rparr>"
proof -
  have g: "getOrCreateRuntimeState now (task_id task) (runtimeStates st) = (val e, runtimeStates st)"
    using assms(1,2) by (simp add: storedEntry_def getOrCreate_live)
  from admit_entry(1) [OF g, of R p] assms(3) show ?thesis by simp
qed

lemma signalRetry_other:
  "a \<noteq> tid \<Longrightarrow> storedEntry a (signalRetry now tid st) = storedEntry a st"
  by (auto simp: signalRetry_def storedEntry_def TTLMap_get_def TTLMap_set_def Let_def
      AList.update_conv' AList.delete_conv' split: option.splits)

lemma signalRetry_defaultTTL:
  "defaultTTL (runtimeStates (signalRetry now tid st)) = defaultTTL (runtimeStates st)"
  by (auto simp: signalRetry_def TTLMap_get_def TTLMap_set_def Let_def split: option.splits)

lemma admit_other:
  "a \<noteq> task_id task \<Longrightarrow>
   storedEntry a (snd (admit R now p task st)) = storedEntry a st \<or>
   storedEntry a (snd (admit R now p task st)) = None"
  using getOrCreate_other [of a "task_id task" now "runtimeStates st"]
  by (simp add: admit_other_eq storedEntry_def)

lemma step_defaultTTL:
  "defaultTTL (runtimeStates (step R c st)) = defaultTTL (runtimeStates st)"
proof -
  obtain now k where c: "c = (now, k)" by (cases c)
  show ?thesis by (cases k) (simp_all add: c admit_defaultTTL signalRetry_defaultTTL)
qed

section \<open>Write-back re-arms the TTL\<close>

lemma run_retained:
  assumes "storedEntry a st = Some e"
    "spaced (defaultTTL (runtimeStates st)) (expiresAt e) (map fst (filter (callOf a) calls))"
    "admitsDispatch R a calls st"
    "staysStored R a calls st"
  shows "\<exists>e'. storedEntry a (run R calls st) = Some e' \<and>
      spawnCount (val e') = spawnCount (val e) + length (filter (admitOf a) calls) \<and>
      retryDepth (val e') = retryDepth (val e) + length (filter (retryOf a) calls) \<and>
      expiresAt e' = (if filter (callOf a) calls = [] then expiresAt e
                      else fst (last (filter (callOf a) calls)) + defaultTTL (runtimeStates st))"
  using assms
proof (induction calls arbitrary: st e)
  case Nil
  then show ?case by simp
next
  case (Cons c calls)
  obtain t k where c: "c = (t, k)" by (cases c)
  let ?ttl = "defaultTTL (runtimeStates st)"
  let ?st' = "step R c st"
  have ttl: "defaultTTL (runtimeStates ?st') = ?ttl" by (rule step_defaultTTL)
  from Cons.prems(4) have kept: "storedEntry a ?st' \<noteq> None" and ss: "staysStored R a calls ?st'"
    by simp_all
  have ad: "admitsDispatch R a calls ?st'"
    using Cons.prems(3) c by (cases k) simp_all
  show ?case
  proof (cases "callOf a c")
    case False
    have same: "storedEntry a ?st' = Some e"
    proof (cases k)
      case (Admit p task)
      with False c have ne: "a \<noteq> task_id task" by (auto simp: callOf_def)
      from admit_other [OF ne, of R t p st] kept Admit c Cons.prems(1) show ?thesis by auto
    next
      case (SignalRetry tid)
      with False c have ne: "a \<noteq> tid" by (auto simp: callOf_def)
      from signalRetry_other [OF ne, of t st] SignalRetry c Cons.prems(1) show ?thesis by simp
    qed
    have sp: "spaced (defaultTTL (runtimeStates ?st')) (expiresAt e) (map fst (filter (callOf a) calls))"
      using Cons.prems(2) False by (simp add: ttl)
    have na: "\<not> admitOf a c" "\<not> retryOf a c" using False by (simp_all add: callOf_def)
    from Cons.IH [OF same sp ad ss, unfolded ttl] show ?thesis
      using False na by auto
  next
    case True
    from Cons.prems(2) True c have live: "t \<le> expiresAt e"
      and sp: "spaced ?ttl (t + ?ttl) (map fst (filter (callOf a) calls))"
      by simp_all
    show ?thesis
    proof (cases k)
      case (Admit p task)
      with True c have own: "task_id task = a" by (simp add: callOf_def)
      from Cons.prems(3) c Admit own have d: "fst (admit R t p task st) = Dispatch" by simp
      let ?e1 = "\<lparr>val = (val e)\<lparr>spawnCount := spawnCount (val e) + 1, lastAttemptAt := t\<rparr>,
                  expiresAt = t + ?ttl\<rparr>"
      have e1: "storedEntry a ?st' = Some ?e1"
        using admit_live_dispatch [of task st e t R p] Cons.prems(1) live d own c Admit by simp
      have sp': "spaced (defaultTTL (runtimeStates ?st')) (expiresAt ?e1) (map fst (filter (callOf a) calls))"
        using sp by (simp add: ttl)
      have fl: "admitOf a c" "\<not> retryOf a c" using c Admit own by simp_all
      from Cons.IH [OF e1 sp' ad ss, unfolded ttl] show ?thesis
        using True fl c by auto
    next
      case (SignalRetry tid)
      with True c have own: "tid = a" by (simp add: callOf_def)
      let ?e1 = "\<lparr>val = (val e)\<lparr>retryDepth := retryDepth (val e) + 1\<rparr>, expiresAt = t + ?ttl\<rparr>"
      have e1: "storedEntry a ?st' = Some ?e1"
        using signalRetry_entry(1) [OF Cons.prems(1) live] c SignalRetry own by simp
      have sp': "spaced (defaultTTL (runtimeStates ?st')) (expiresAt ?e1) (map fst (filter (callOf a) calls))"
        using sp by (simp add: ttl)
      have fl: "\<not> admitOf a c" "retryOf a c" using c SignalRetry own by simp_all
      from Cons.IH [OF e1 sp' ad ss, unfolded ttl] show ?thesis
        using True fl c by auto
    qed
  qed
qed

lemma admit_live_drop:
  assumes "storedEntry (task_id task) st = Some e" "now \<le> expiresAt e"
    "fst (admit R now p task st) \<noteq> Dispatch"
  shows "storedEntry (task_id task) (snd (admit R now p task st)) = Some e"
proof -
  have g: "getOrCreateRuntimeState now (task_id task) (runtimeStates st) = (val e, runtimeStates st)"
    using assms(1,2) by (simp add: storedEntry_def getOrCreate_live)
  from admit_entry(1) [OF g, of R p] assms(1,3) show ?thesis by (simp add: storedEntry_def)
qed

text \<open>
  Claim C10, amended. An \<open>admit\<close> that dispatches at time \<open>now\<close> leaves the task's entry
  with expiry \<open>now + stateTTL\<close>, and so does a \<open>signalRetry\<close> on a live entry; an \<open>admit\<close>
  that drops on a live entry leaves the entry and its expiry as they are. Hence through any
  run of calls for any tasks in which the admits of the task dispatch, its calls are spaced
  (the first made while the entry lives, each at most \<open>stateTTL\<close> after the one before)
  and its entry is never evicted, the counters are never reset: \<open>spawnCount\<close> has grown by
  the number of its admits, \<open>retryDepth\<close> by the number of its retry signals, and the entry
  expires \<open>stateTTL\<close> after the last of its calls.
\<close>

theorem write_back_rearms_ttl:
  "(fst (admit R now p task st) = Dispatch \<longrightarrow>
      (\<exists>s. storedEntry (task_id task) (snd (admit R now p task st)) =
            Some \<lparr>val = s, expiresAt = now + defaultTTL (runtimeStates st)\<rparr>)) \<and>
   (storedEntry (task_id task) st = Some e \<and> now \<le> expiresAt e \<and>
    fst (admit R now p task st) \<noteq> Dispatch \<longrightarrow>
      storedEntry (task_id task) (snd (admit R now p task st)) = Some e) \<and>
   (storedEntry a st = Some e \<and> now \<le> expiresAt e \<longrightarrow>
      storedEntry a (signalRetry now a st) =
        Some \<lparr>val = (val e)\<lparr>retryDepth := retryDepth (val e) + 1\<rparr>,
              expiresAt = now + defaultTTL (runtimeStates st)\<rparr>) \<and>
   (storedEntry a st = Some e \<and>
    spaced (defaultTTL (runtimeStates st)) (expiresAt e) (map fst (filter (callOf a) calls)) \<and>
    admitsDispatch R a calls st \<and> staysStored R a calls st \<longrightarrow>
      (\<exists>e'. storedEntry a (run R calls st) = Some e' \<and>
         spawnCount (val e') = spawnCount (val e) + length (filter (admitOf a) calls) \<and>
         retryDepth (val e') = retryDepth (val e) + length (filter (retryOf a) calls) \<and>
         expiresAt e' = (if filter (callOf a) calls = [] then expiresAt e
                         else fst (last (filter (callOf a) calls)) + defaultTTL (runtimeStates st)) \<and>
         (\<forall>t. fst (getRuntimeState t a (run R calls st)) =
                (if expiresAt e' < t then None else Some (val e')))))"
proof (intro conjI impI)
  assume d: "fst (admit R now p task st) = Dispatch"
  obtain s rs where g: "getOrCreateRuntimeState now (task_id task) (runtimeStates st) = (s, rs)"
    by (cases "getOrCreateRuntimeState now (task_id task) (runtimeStates st)")
  from admit_entry(1) [OF g, of R p] d
  show "\<exists>s. storedEntry (task_id task) (snd (admit R now p task st)) =
            Some \<lparr>val = s, expiresAt = now + defaultTTL (runtimeStates st)\<rparr>" by simp
next
  assume "storedEntry (task_id task) st = Some e \<and> now \<le> expiresAt e \<and>
    fst (admit R now p task st) \<noteq> Dispatch"
  then show "storedEntry (task_id task) (snd (admit R now p task st)) = Some e"
    using admit_live_drop by blast
next
  assume "storedEntry a st = Some e \<and> now \<le> expiresAt e"
  then show "storedEntry a (signalRetry now a st) =
        Some \<lparr>val = (val e)\<lparr>retryDepth := retryDepth (val e) + 1\<rparr>,
              expiresAt = now + defaultTTL (runtimeStates st)\<rparr>"
    using signalRetry_entry(1) by blast
next
  assume h: "storedEntry a st = Some e \<and>
    spaced (defaultTTL (runtimeStates st)) (expiresAt e) (map fst (filter (callOf a) calls)) \<and>
    admitsDispatch R a calls st \<and> staysStored R a calls st"
  from run_retained [of a st e calls R] h obtain e' where
    e': "storedEntry a (run R calls st) = Some e'"
      "spawnCount (val e') = spawnCount (val e) + length (filter (admitOf a) calls)"
      "retryDepth (val e') = retryDepth (val e) + length (filter (retryOf a) calls)"
      "expiresAt e' = (if filter (callOf a) calls = [] then expiresAt e
                      else fst (last (filter (callOf a) calls)) + defaultTTL (runtimeStates st))"
    by blast
  have "\<forall>t. fst (getRuntimeState t a (run R calls st)) =
                (if expiresAt e' < t then None else Some (val e'))"
    by (simp add: getRuntimeState_fst e'(1))
  with e' show "\<exists>e'. storedEntry a (run R calls st) = Some e' \<and>
         spawnCount (val e') = spawnCount (val e) + length (filter (admitOf a) calls) \<and>
         retryDepth (val e') = retryDepth (val e) + length (filter (retryOf a) calls) \<and>
         expiresAt e' = (if filter (callOf a) calls = [] then expiresAt e
                         else fst (last (filter (callOf a) calls)) + defaultTTL (runtimeStates st)) \<and>
         (\<forall>t. fst (getRuntimeState t a (run R calls st)) =
                (if expiresAt e' < t then None else Some (val e')))"
    by blast
qed

lemma run_example_states:
  "signalRetry 200000 ''A''
     (snd (admit defaultRoutine 0 (flatPressure 0) (budgetTask ''A'' 3) (testState 10000))) =
     \<lparr>runtimeStates =
        \<lparr>store = [(''A'', \<lparr>val = \<lparr>spawnCount = 1, retryDepth = 1, lastAttemptAt = 0\<rparr>,
                            expiresAt = 500000\<rparr>)],
         defaultTTL = 300000, maxSize = 10000\<rparr>,
      dispatched = [(budgetTask ''A'' 3, SubRoutine ''default'')],
      emitted = []\<rparr>"
  "admit defaultRoutine 250000 (flatPressure 0) (budgetTask ''B'' 1)
     \<lparr>runtimeStates =
        \<lparr>store = [(''A'', \<lparr>val = \<lparr>spawnCount = 1, retryDepth = 1, lastAttemptAt = 0\<rparr>,
                            expiresAt = 500000\<rparr>)],
         defaultTTL = 300000, maxSize = 10000\<rparr>,
      dispatched = [(budgetTask ''A'' 3, SubRoutine ''default'')],
      emitted = []\<rparr> =
     (Dispatch,
      \<lparr>runtimeStates =
        \<lparr>store = [(''A'', \<lparr>val = \<lparr>spawnCount = 1, retryDepth = 1, lastAttemptAt = 0\<rparr>,
                            expiresAt = 500000\<rparr>),
                  (''B'', \<lparr>val = \<lparr>spawnCount = 1, retryDepth = 0, lastAttemptAt = 250000\<rparr>,
                            expiresAt = 550000\<rparr>)],
         defaultTTL = 300000, maxSize = 10000\<rparr>,
      dispatched = [(budgetTask ''A'' 3, SubRoutine ''default''),
                    (budgetTask ''B'' 1, SubRoutine ''default'')],
      emitted = []\<rparr>)"
  "admit defaultRoutine 400000 (flatPressure 0) (budgetTask ''A'' 3)
     \<lparr>runtimeStates =
        \<lparr>store = [(''A'', \<lparr>val = \<lparr>spawnCount = 1, retryDepth = 1, lastAttemptAt = 0\<rparr>,
                            expiresAt = 500000\<rparr>),
                  (''B'', \<lparr>val = \<lparr>spawnCount = 1, retryDepth = 0, lastAttemptAt = 250000\<rparr>,
                            expiresAt = 550000\<rparr>)],
         defaultTTL = 300000, maxSize = 10000\<rparr>,
      dispatched = [(budgetTask ''A'' 3, SubRoutine ''default''),
                    (budgetTask ''B'' 1, SubRoutine ''default'')],
      emitted = []\<rparr> =
     (Dispatch,
      \<lparr>runtimeStates =
        \<lparr>store = [(''A'', \<lparr>val = \<lparr>spawnCount = 2, retryDepth = 1, lastAttemptAt = 400000\<rparr>,
                            expiresAt = 700000\<rparr>),
                  (''B'', \<lparr>val = \<lparr>spawnCount = 1, retryDepth = 0, lastAttemptAt = 250000\<rparr>,
                            expiresAt = 550000\<rparr>)],
         defaultTTL = 300000, maxSize = 10000\<rparr>,
       dispatched = [(budgetTask ''A'' 3, SubRoutine ''default''),
                     (budgetTask ''B'' 1, SubRoutine ''default''),
                     (budgetTask ''A'' 3, SubRoutine ''default'')],
       emitted = []\<rparr>)"
  "signalRetry 600000 ''A''
      \<lparr>runtimeStates =
        \<lparr>store = [(''A'', \<lparr>val = \<lparr>spawnCount = 2, retryDepth = 1, lastAttemptAt = 400000\<rparr>,
                            expiresAt = 700000\<rparr>),
                  (''B'', \<lparr>val = \<lparr>spawnCount = 1, retryDepth = 0, lastAttemptAt = 250000\<rparr>,
                            expiresAt = 550000\<rparr>)],
         defaultTTL = 300000, maxSize = 10000\<rparr>,
       dispatched = [(budgetTask ''A'' 3, SubRoutine ''default''),
                     (budgetTask ''B'' 1, SubRoutine ''default''),
                     (budgetTask ''A'' 3, SubRoutine ''default'')],
       emitted = []\<rparr> =
      \<lparr>runtimeStates =
        \<lparr>store = [(''A'', \<lparr>val = \<lparr>spawnCount = 2, retryDepth = 2, lastAttemptAt = 400000\<rparr>,
                            expiresAt = 900000\<rparr>),
                  (''B'', \<lparr>val = \<lparr>spawnCount = 1, retryDepth = 0, lastAttemptAt = 250000\<rparr>,
                            expiresAt = 550000\<rparr>)],
         defaultTTL = 300000, maxSize = 10000\<rparr>,
       dispatched = [(budgetTask ''A'' 3, SubRoutine ''default''),
                     (budgetTask ''B'' 1, SubRoutine ''default''),
                     (budgetTask ''A'' 3, SubRoutine ''default'')],
       emitted = []\<rparr>"
  by (simp_all add: admit_A signalRetry_def admit_eval)

theorem write_back_rearms_ttl_witness:
  "(\<exists>s. storedEntry ''A''
          (snd (admit defaultRoutine 0 (flatPressure 0) (budgetTask ''A'' 3) (testState 10000))) =
        Some \<lparr>val = s, expiresAt = 300000\<rparr>) \<and>
   storedEntry ''A'' (snd (admit defaultRoutine 10 (flatPressure 0) (budgetTask ''A'' 1)
       (snd (admit defaultRoutine 0 (flatPressure 0) (budgetTask ''A'' 3) (testState 10000))))) =
     Some \<lparr>val = \<lparr>spawnCount = 1, retryDepth = 0, lastAttemptAt = 0\<rparr>, expiresAt = 300000\<rparr> \<and>
   storedEntry ''A'' (signalRetry 200000 ''A''
       (snd (admit defaultRoutine 0 (flatPressure 0) (budgetTask ''A'' 3) (testState 10000)))) =
     Some \<lparr>val = \<lparr>spawnCount = 1, retryDepth = 1, lastAttemptAt = 0\<rparr>, expiresAt = 500000\<rparr> \<and>
   (\<exists>e'. storedEntry ''A'' (run defaultRoutine
              [(200000, SignalRetry ''A''), (250000, Admit (flatPressure 0) (budgetTask ''B'' 1)),
               (400000, Admit (flatPressure 0) (budgetTask ''A'' 3)), (600000, SignalRetry ''A'')]
              (snd (admit defaultRoutine 0 (flatPressure 0) (budgetTask ''A'' 3) (testState 10000)))) =
            Some e' \<and>
         spawnCount (val e') = 2 \<and> retryDepth (val e') = 2 \<and> expiresAt e' = 900000)"
proof -
  let ?A = "budgetTask ''A'' 3"
  let ?A1 = "budgetTask ''A'' 1"
  let ?S = "snd (admit defaultRoutine 0 (flatPressure 0) ?A (testState 10000))"
  let ?e = "\<lparr>val = \<lparr>spawnCount = 1, retryDepth = 0, lastAttemptAt = 0\<rparr>, expiresAt = 300000\<rparr>"
  let ?calls = "[(200000::int, SignalRetry ''A''), (250000, Admit (flatPressure 0) (budgetTask ''B'' 1)),
               (400000, Admit (flatPressure 0) ?A), (600000, SignalRetry ''A'')]"
  have d: "fst (admit defaultRoutine 0 (flatPressure 0) ?A (testState 10000)) = Dispatch"
    by (simp add: admit_decision getOrCreate_fst decide_def avgPressure_flat distributor_default
        TTLMap_new_def)
  have ttl0: "defaultTTL (runtimeStates (testState 10000)) = 300000" by (simp add: TTLMap_new_def)
  have e: "storedEntry ''A'' ?S = Some ?e" and ttl: "defaultTTL (runtimeStates ?S) = 300000"
    by (simp_all add: admit_A storedEntry_def)
  have e1: "storedEntry (task_id ?A1) ?S = Some ?e" using e by simp
  have nd: "fst (admit defaultRoutine 10 (flatPressure 0) ?A1 ?S) \<noteq> Dispatch"
    by (simp add: admit_decision getOrCreate_fst decide_def admit_A)
  have live: "200000 \<le> expiresAt ?e" "10 \<le> expiresAt ?e" by simp_all
  have sp: "spaced (defaultTTL (runtimeStates ?S)) (expiresAt ?e) (map fst (filter (callOf ''A'') ?calls))"
    by (simp add: ttl callOf_def)
  have ad: "admitsDispatch defaultRoutine ''A'' ?calls ?S"
    by (simp add: run_example_states del: One_nat_def)
  have ss: "staysStored defaultRoutine ''A'' ?calls ?S"
    by (simp add: run_example_states storedEntry_def del: One_nat_def)
  from write_back_rearms_ttl [of defaultRoutine 0 "flatPressure 0" ?A "testState 10000"] d ttl0
  have 1: "\<exists>s. storedEntry ''A'' ?S = Some \<lparr>val = s, expiresAt = 300000\<rparr>" by simp
  from write_back_rearms_ttl [of defaultRoutine 10 "flatPressure 0" ?A1 ?S ?e] e1 live(2) nd
  have 2: "storedEntry ''A'' (snd (admit defaultRoutine 10 (flatPressure 0) ?A1 ?S)) = Some ?e"
    by simp
  from write_back_rearms_ttl [of _ 200000 _ _ ?S ?e "''A''"] e live(1) ttl
  have 3: "storedEntry ''A'' (signalRetry 200000 ''A'' ?S) =
     Some \<lparr>val = \<lparr>spawnCount = 1, retryDepth = 1, lastAttemptAt = 0\<rparr>, expiresAt = 500000\<rparr>"
    by simp
  from write_back_rearms_ttl [of defaultRoutine _ _ _ ?S ?e "''A''" ?calls] e sp ad ss
  obtain e' where
    a: "storedEntry ''A'' (run defaultRoutine ?calls ?S) = Some e'"
    and b: "spawnCount (val e') = spawnCount (val ?e) + length (filter (admitOf ''A'') ?calls)"
      "retryDepth (val e') = retryDepth (val ?e) + length (filter (retryOf ''A'') ?calls)"
      "expiresAt e' = (if filter (callOf ''A'') ?calls = [] then expiresAt ?e
                         else fst (last (filter (callOf ''A'') ?calls)) + defaultTTL (runtimeStates ?S))"
    by blast
  from b have b': "spawnCount (val e') = 2" "retryDepth (val e') = 2" "expiresAt e' = 900000"
    by (simp_all add: ttl callOf_def)
  from a b' have 4: "\<exists>e'. storedEntry ''A'' (run defaultRoutine ?calls ?S) = Some e' \<and>
         spawnCount (val e') = 2 \<and> retryDepth (val e') = 2 \<and> expiresAt e' = 900000"
    by blast
  from 1 2 3 4 show ?thesis by blast
qed

text \<open>
  With room for one task, A is admitted at 0, B at 1 and A again at 2. Both admits of A
  dispatch, two milliseconds apart, and after the second the stored \<open>spawnCount\<close> of A is
  1: the admission of B evicted the entry of A.
\<close>

theorem write_back_counterexample:
  "fst (admit defaultRoutine 0 (flatPressure 0) (budgetTask ''A'' 3) (testState 1)) = Dispatch \<and>
   fst (admit defaultRoutine 2 (flatPressure 0) (budgetTask ''A'' 3)
     (run defaultRoutine
        [(0, Admit (flatPressure 0) (budgetTask ''A'' 3)), (1, Admit (flatPressure 0) (budgetTask ''B'' 3))]
        (testState 1))) = Dispatch \<and>
   storedEntry ''A'' (run defaultRoutine
        [(0, Admit (flatPressure 0) (budgetTask ''A'' 3)), (1, Admit (flatPressure 0) (budgetTask ''B'' 3)),
         (2, Admit (flatPressure 0) (budgetTask ''A'' 3))]
        (testState 1)) =
     Some \<lparr>val = \<lparr>spawnCount = 1, retryDepth = 0, lastAttemptAt = 2\<rparr>, expiresAt = 300002\<rparr>"
proof -
  let ?A = "budgetTask ''A'' 3"
  let ?B = "budgetTask ''B'' 3"
  have s1: "admit defaultRoutine 0 (flatPressure 0) ?A (testState 1) =
     (Dispatch,
      \<lparr>runtimeStates =
        \<lparr>store = [(''A'', \<lparr>val = \<lparr>spawnCount = 1, retryDepth = 0, lastAttemptAt = 0\<rparr>,
                            expiresAt = 300000\<rparr>)],
         defaultTTL = 300000, maxSize = 1\<rparr>,
       dispatched = [(?A, SubRoutine ''default'')],
       emitted = []\<rparr>)"
    by (simp add: admit_eval)
  have s2: "admit defaultRoutine 1 (flatPressure 0) ?B
      \<lparr>runtimeStates =
        \<lparr>store = [(''A'', \<lparr>val = \<lparr>spawnCount = 1, retryDepth = 0, lastAttemptAt = 0\<rparr>,
                            expiresAt = 300000\<rparr>)],
         defaultTTL = 300000, maxSize = 1\<rparr>,
       dispatched = [(?A, SubRoutine ''default'')],
       emitted = []\<rparr> =
     (Dispatch,
      \<lparr>runtimeStates =
        \<lparr>store = [(''B'', \<lparr>val = \<lparr>spawnCount = 1, retryDepth = 0, lastAttemptAt = 1\<rparr>,
                            expiresAt = 300001\<rparr>)],
         defaultTTL = 300000, maxSize = 1\<rparr>,
       dispatched = [(?A, SubRoutine ''default''), (?B, SubRoutine ''default'')],
       emitted = []\<rparr>)"
    by (simp add: admit_eval)
  have s3: "admit defaultRoutine 2 (flatPressure 0) ?A
      \<lparr>runtimeStates =
        \<lparr>store = [(''B'', \<lparr>val = \<lparr>spawnCount = 1, retryDepth = 0, lastAttemptAt = 1\<rparr>,
                            expiresAt = 300001\<rparr>)],
         defaultTTL = 300000, maxSize = 1\<rparr>,
       dispatched = [(?A, SubRoutine ''default''), (?B, SubRoutine ''default'')],
       emitted = []\<rparr> =
     (Dispatch,
      \<lparr>runtimeStates =
        \<lparr>store = [(''A'', \<lparr>val = \<lparr>spawnCount = 1, retryDepth = 0, lastAttemptAt = 2\<rparr>,
                            expiresAt = 300002\<rparr>)],
         defaultTTL = 300000, maxSize = 1\<rparr>,
       dispatched = [(?A, SubRoutine ''default''), (?B, SubRoutine ''default''),
                     (?A, SubRoutine ''default'')],
       emitted = []\<rparr>)"
    by (simp add: admit_eval)
  show ?thesis by (simp add: s1 s2 s3 storedEntry_def del: One_nat_def)
qed

section \<open>Spawn count over a run of calls\<close>



section \<open>Runtime states by reference and by value\<close>

lemma de_simps [simp]:
  "derefEntries f [] = []"
  "derefEntries f ((k, e) # xs) = (k, \<lparr>val = f (val e), expiresAt = expiresAt e\<rparr>) # derefEntries f xs"
  "refsOf [] = []"
  "refsOf ((k, e) # xs) = val e # refsOf xs"
  by (simp_all add: derefEntries_def refsOf_def)

lemma de_length [simp]: "length (derefEntries f xs) = length xs"
  by (simp add: derefEntries_def)





lemma deref_fields [simp]:
  "store (deref f m) = derefEntries f (store m)"
  "defaultTTL (deref f m) = defaultTTL m"
  "maxSize (deref f m) = maxSize m"
  by (simp_all add: deref_def)
































section \<open>Spawn count\<close>








end
